theory Spec2Isabelle
  imports Main "HOL-Library.Signed_Division" "HOL-Library.AList"
begin

unbundle bit_operations_syntax

section \<open>Common types\<close>

text \<open>
  Page identifiers are the C++ \<^verbatim>\<open>page_id_t\<close> (a signed 32-bit integer); no arithmetic on
  them can overflow in the functions modelled here, so they are \<^typ>\<open>int\<close>.
  \<^verbatim>\<open>INVALID_PAGE_ID\<close> is \<open>-1\<close> and the header page has id \<open>0\<close> (common/config.h).
\<close>

type_synonym page_id_t = int

definition INVALID_PAGE_ID :: page_id_t where
  "INVALID_PAGE_ID = - 1"

definition HEADER_PAGE_ID :: page_id_t where
  "HEADER_PAGE_ID = 0"

text \<open>
  Every \<^verbatim>\<open>assert\<close> of the source that fails, every dereference of a null pointer and
  every read of an array slot that holds no valid entry is a branch of the model that
  returns an error.  \<open>OutOfFuel\<close> is not a result of the program: it marks a loop or a
  recursion of the source that has not come to an end within the number of steps allowed.
\<close>

datatype error = AssertionFailure | NullPointer | OutOfFuel

section \<open>B+Tree page header (page/b_plus_tree_page.cpp)\<close>

datatype IndexPageType = INVALID_INDEX_PAGE | LEAF_PAGE | INTERNAL_PAGE

datatype OperationType = READ | INSERT | DELETE

text \<open>
  A tree page, as the bytes of a frame are read.  The two typed views of the C++
  (\<^verbatim>\<open>BPlusTreeLeafPage\<close>, \<^verbatim>\<open>BPlusTreeInternalPage\<close>) share the header.  The entry array
  of a page is a function from the slot index to the entry that the memory of the slot
  holds: \<open>leaf_array\<close> for the leaf view (key, record id), \<open>internal_array\<close> for the
  internal view (key, child page id).  The slots \<open>0 .. psize - 1\<close> are the valid ones
  (\<open>psize\<close> is the header field \<^verbatim>\<open>size_\<close>); the others keep whatever was written to them
  last.  That the array has room for \<open>max_size + 1\<close> entries only is not modelled.
\<close>

record ('k, 'v) BPlusTreePage =
  page_type :: IndexPageType
  psize :: int
  max_size :: int
  parent_page_id :: page_id_t
  page_id :: page_id_t
  next_page_id :: page_id_t
  leaf_array :: "int \<Rightarrow> 'k \<times> 'v"
  internal_array :: "int \<Rightarrow> 'k \<times> page_id_t"

definition IsLeafPage :: "('k, 'v) BPlusTreePage \<Rightarrow> bool" where
  "IsLeafPage p = (page_type p = LEAF_PAGE)"

definition IsRootPage :: "('k, 'v) BPlusTreePage \<Rightarrow> bool" where
  "IsRootPage p = (parent_page_id p = INVALID_PAGE_ID)"

definition GetSize :: "('k, 'v) BPlusTreePage \<Rightarrow> int" where
  "GetSize p = psize p"

definition SetSize :: "int \<Rightarrow> ('k, 'v) BPlusTreePage \<Rightarrow> ('k, 'v) BPlusTreePage" where
  "SetSize n p = p\<lparr>psize := n\<rparr>"

definition IncreaseSize :: "int \<Rightarrow> ('k, 'v) BPlusTreePage \<Rightarrow> ('k, 'v) BPlusTreePage" where
  "IncreaseSize amount p = p\<lparr>psize := psize p + amount\<rparr>"

definition GetMaxSize :: "('k, 'v) BPlusTreePage \<Rightarrow> int" where
  "GetMaxSize p = max_size p"

text \<open>\<^verbatim>\<open>max_size_ / 2\<close> is C++ integer division, which truncates towards zero.\<close>

definition GetMinSize :: "('k, 'v) BPlusTreePage \<Rightarrow> int" where
  "GetMinSize p =
     (if IsRootPage p then (if IsLeafPage p then 1 else 2)
      else max_size p sdiv 2)"

text \<open>
  \<^verbatim>\<open>IsSafeOperation\<close>.  The final \<^verbatim>\<open>assert(false)\<close> of the source is reached for no
  value of the enumeration \<^verbatim>\<open>OperationType\<close>.
\<close>

definition IsSafeOperation :: "('k, 'v) BPlusTreePage \<Rightarrow> OperationType \<Rightarrow> bool" where
  "IsSafeOperation p operation =
     (if operation = READ then True
      else let sz = GetSize p; maxSize = GetMaxSize p in
        if operation = INSERT then sz < maxSize
        else let minSize = GetMinSize p + 1 in
          if IsLeafPage p then sz \<ge> minSize else sz > minSize)"

section \<open>Extendible hash table (project1: hash/extendible_hash.cpp)\<close>

text \<open>
  Several slots of the directory share one bucket (\<^verbatim>\<open>shared_ptr<Bucket>\<close>), so the buckets
  live in a store: \<open>bucket_store\<close> maps the address of a bucket to the bucket, \<open>buckets\<close> is
  the directory of addresses, and \<open>next_bucket\<close> is the address that the next
  \<^verbatim>\<open>make_shared<Bucket>\<close> returns.  \<open>keyMap\<close> is the \<^verbatim>\<open>std::map\<close> of a bucket as the list
  of its entries, one for each key.  The depths are never negative.
\<close>

record ('k, 'v) Bucket =
  localDepth :: nat
  keyMap :: "('k \<times> 'v) list"

record ('k, 'v) ExtendibleHash =
  globalDepth :: nat
  bucketNum :: int
  bucketSize :: nat
  buckets :: "nat list"
  bucket_store :: "nat \<Rightarrow> ('k, 'v) Bucket"
  next_bucket :: nat

definition ExtendibleHash_new :: "nat \<Rightarrow> ('k, 'v) ExtendibleHash" where
  "ExtendibleHash_new n =
     \<lparr>globalDepth = 0, bucketNum = 1, bucketSize = n, buckets = [0],
      bucket_store = (\<lambda>a. \<lparr>localDepth = 0, keyMap = []\<rparr>), next_bucket = 1\<rparr>"

text \<open>
  \<^verbatim>\<open>HashKey\<close> is \<^verbatim>\<open>std::hash<K>\<close> of the C++ library; the model takes it as the parameter
  \<open>h\<close>.  \<^verbatim>\<open>getIdx\<close> masks the hash value with \<^verbatim>\<open>(1 << globalDepth) - 1\<close>.
\<close>

definition getIdx :: "('k \<Rightarrow> nat) \<Rightarrow> ('k, 'v) ExtendibleHash \<Rightarrow> 'k \<Rightarrow> nat" where
  "getIdx h t key = h key AND (2 ^ globalDepth t - 1)"

definition GetGlobalDepth :: "('k, 'v) ExtendibleHash \<Rightarrow> int" where
  "GetGlobalDepth t = int (globalDepth t)"

definition GetLocalDepth :: "('k, 'v) ExtendibleHash \<Rightarrow> int \<Rightarrow> int" where
  "GetLocalDepth t bucket_id =
     (if 0 \<le> bucket_id \<and> nat bucket_id < length (buckets t)
      then int (localDepth (bucket_store t (buckets t ! nat bucket_id)))
      else - 1)"

definition GetNumBuckets :: "('k, 'v) ExtendibleHash \<Rightarrow> int" where
  "GetNumBuckets t = bucketNum t"

text \<open>\<^verbatim>\<open>Find\<close> returns the value in its reference parameter; \<open>None\<close> is the result false.\<close>

definition ExtendibleHash_Find ::
  "('k \<Rightarrow> nat) \<Rightarrow> ('k, 'v) ExtendibleHash \<Rightarrow> 'k \<Rightarrow> 'v option" where
  "ExtendibleHash_Find h t key =
     map_of (keyMap (bucket_store t (buckets t ! getIdx h t key))) key"

definition ExtendibleHash_Remove ::
  "('k \<Rightarrow> nat) \<Rightarrow> 'k \<Rightarrow> ('k, 'v) ExtendibleHash \<Rightarrow> bool \<times> ('k, 'v) ExtendibleHash" where
  "ExtendibleHash_Remove h key t =
     (let cur = buckets t ! getIdx h t key; b = bucket_store t cur in
      if map_of (keyMap b) key \<noteq> None
      then (True, t\<lparr>bucket_store := (bucket_store t)(cur := b\<lparr>keyMap := AList.delete key (keyMap b)\<rparr>)\<rparr>)
      else (False, t))"

text \<open>
  The loop of \<^verbatim>\<open>Insert\<close>: one call of \<open>Insert_loop\<close> is one pass through the body of
  \<^verbatim>\<open>while (true)\<close> with the bucket \<open>cur\<close>; the first argument bounds the number of passes.
\<close>

fun Insert_loop ::
  "nat \<Rightarrow> ('k \<Rightarrow> nat) \<Rightarrow> 'k \<Rightarrow> 'v \<Rightarrow> nat \<Rightarrow> ('k, 'v) ExtendibleHash \<Rightarrow>
     error + ('k, 'v) ExtendibleHash" where
  "Insert_loop 0 h key v cur t = Inl OutOfFuel"
| "Insert_loop (Suc n) h key v cur t =
     (let b = bucket_store t cur in
      if map_of (keyMap b) key \<noteq> None \<or> length (keyMap b) < bucketSize t
      then Inr (t\<lparr>bucket_store := (bucket_store t)(cur := b\<lparr>keyMap := AList.update key v (keyMap b)\<rparr>)\<rparr>)
      else
        let mask = (2::nat) ^ localDepth b;
            b1 = b\<lparr>localDepth := localDepth b + 1\<rparr>;
            t1 = (if localDepth b1 > globalDepth t
                  then t\<lparr>buckets := buckets t @ buckets t, globalDepth := globalDepth t + 1\<rparr>
                  else t);
            t2 = t1\<lparr>bucketNum := bucketNum t1 + 1\<rparr>;
            newBuc = next_bucket t2;
            moved = filter (\<lambda>e. h (fst e) AND mask \<noteq> 0) (keyMap b1);
            kept = filter (\<lambda>e. \<not> (h (fst e) AND mask \<noteq> 0)) (keyMap b1);
            t3 = t2\<lparr>bucket_store := (bucket_store t2)
                        (cur := b1\<lparr>keyMap := kept\<rparr>,
                         newBuc := \<lparr>localDepth = localDepth b1, keyMap = moved\<rparr>),
                    next_bucket := newBuc + 1\<rparr>;
            t4 = t3\<lparr>buckets :=
                       map (\<lambda>(i, a). if a = cur \<and> i AND mask \<noteq> 0 then newBuc else a)
                         (enumerate 0 (buckets t3))\<rparr>
        in Insert_loop n h key v (buckets t4 ! getIdx h t4 key) t4)"

definition ExtendibleHash_Insert ::
  "nat \<Rightarrow> ('k \<Rightarrow> nat) \<Rightarrow> 'k \<Rightarrow> 'v \<Rightarrow> ('k, 'v) ExtendibleHash \<Rightarrow>
     error + ('k, 'v) ExtendibleHash" where
  "ExtendibleHash_Insert fuel h key v t =
     Insert_loop fuel h key v (buckets t ! getIdx h t key) t"

section \<open>LRU replacer (buffer/lru_replacer.cpp, include/buffer/lru_replacer.h)\<close>

text \<open>
  The replacer is a doubly linked list of nodes between the two sentinels \<^verbatim>\<open>head\<close> and
  \<^verbatim>\<open>tail\<close>, and an \<^verbatim>\<open>unordered_map\<close> from each value to its node.  \<open>chain\<close> is the list of
  the values of the nodes from \<^verbatim>\<open>head->next\<close> to \<^verbatim>\<open>tail->prev\<close>; \<open>hashmap\<close> is the set of
  keys of the map.  Unlinking the node that the map holds for a value removes that value's
  entry from the list.
\<close>

record 'a LRUReplacer =
  chain :: "'a list"
  hashmap :: "'a set"

definition LRUReplacer_new :: "'a LRUReplacer" where
  "LRUReplacer_new = \<lparr>chain = [], hashmap = {}\<rparr>"

definition LRUReplacer_Insert :: "'a \<Rightarrow> 'a LRUReplacer \<Rightarrow> 'a LRUReplacer" where
  "LRUReplacer_Insert v r =
     (let unlinked = (if v \<in> hashmap r then remove1 v (chain r) else chain r)
      in \<lparr>chain = v # unlinked, hashmap = insert v (hashmap r)\<rparr>)"

text \<open>\<^verbatim>\<open>Victim\<close> returns false on an empty list, and else pops the node before \<^verbatim>\<open>tail\<close>.\<close>

definition LRUReplacer_Victim :: "'a LRUReplacer \<Rightarrow> 'a option \<times> 'a LRUReplacer" where
  "LRUReplacer_Victim r =
     (if chain r = [] then (None, r)
      else let lastv = last (chain r)
           in (Some lastv, \<lparr>chain = butlast (chain r), hashmap = hashmap r - {lastv}\<rparr>))"

definition LRUReplacer_Erase :: "'a \<Rightarrow> 'a LRUReplacer \<Rightarrow> bool \<times> 'a LRUReplacer" where
  "LRUReplacer_Erase v r =
     (if v \<in> hashmap r
      then (True, \<lparr>chain = remove1 v (chain r), hashmap = hashmap r - {v}\<rparr>)
      else (False, r))"

definition LRUReplacer_Size :: "'a LRUReplacer \<Rightarrow> nat" where
  "LRUReplacer_Size r = card (hashmap r)"

text \<open>A history of calls, applied to a new replacer in the order of the list.\<close>

datatype 'a lru_op = OpInsert 'a | OpErase 'a

fun lru_step :: "'a LRUReplacer \<Rightarrow> 'a lru_op \<Rightarrow> 'a LRUReplacer" where
  "lru_step r (OpInsert v) = LRUReplacer_Insert v r"
| "lru_step r (OpErase v) = snd (LRUReplacer_Erase v r)"

definition lru_run :: "'a lru_op list \<Rightarrow> 'a LRUReplacer" where
  "lru_run ops = foldl lru_step LRUReplacer_new ops"

text \<open>
  The time of the most recent \<^verbatim>\<open>Insert\<close> of a value that is present, read off the history
  (the latest call first): the number of calls made before it.  A value whose latest call
  is an \<^verbatim>\<open>Erase\<close>, or that was never inserted, is not present.
\<close>

fun stamp_rev :: "'a lru_op list \<Rightarrow> 'a \<Rightarrow> nat option" where
  "stamp_rev [] v = None"
| "stamp_rev (OpInsert w # h) v = (if w = v then Some (length h) else stamp_rev h v)"
| "stamp_rev (OpErase w # h) v = (if w = v then None else stamp_rev h v)"

definition last_insert :: "'a lru_op list \<Rightarrow> 'a \<Rightarrow> nat option" where
  "last_insert ops v = stamp_rev (rev ops) v"

section \<open>Buffer pool manager (project2: buffer/buffer_pool_manager.cpp)\<close>

text \<open>
  A frame (\<^verbatim>\<open>Page\<close>).  Its byte buffer \<^verbatim>\<open>data_\<close> is held as the tree page that the index
  reads in it.  \<^verbatim>\<open>ResetMemory\<close> fills the buffer with zero bytes.
\<close>

record ('k, 'v) Page =
  frame_page_id :: page_id_t
  pin_count :: int
  is_dirty :: bool
  frame_data :: "('k, 'v) BPlusTreePage"

definition zero_page :: "('k::zero, 'v::zero) BPlusTreePage" where
  "zero_page = \<lparr>page_type = INVALID_INDEX_PAGE, psize = 0, max_size = 0, parent_page_id = 0,
                 page_id = 0, next_page_id = 0, leaf_array = (\<lambda>i. (0, 0)),
                 internal_array = (\<lambda>i. (0, 0))\<rparr>"

definition ResetMemory :: "('k::zero, 'v::zero) Page \<Rightarrow> ('k, 'v) Page" where
  "ResetMemory pg = pg\<lparr>frame_data := zero_page\<rparr>"

text \<open>
  Modelled from the spec: the Disk Manager (its code is not among the sources).  It keeps
  the image of every page, hands out increasing page ids, and is synchronous and reliable.
  \<open>io_log\<close> records its calls in order, the latest last.
\<close>

datatype ('k, 'v) disk_op =
    WritePage page_id_t "('k, 'v) BPlusTreePage"
  | ReadPage page_id_t
  | AllocatePage page_id_t
  | DeallocatePage page_id_t

record ('k, 'v) DiskManager =
  disk_image :: "page_id_t \<Rightarrow> ('k, 'v) BPlusTreePage"
  next_id :: page_id_t
  io_log :: "('k, 'v) disk_op list"

definition DiskManager_WritePage ::
  "page_id_t \<Rightarrow> ('k, 'v) BPlusTreePage \<Rightarrow> ('k, 'v) DiskManager \<Rightarrow> ('k, 'v) DiskManager" where
  "DiskManager_WritePage pid d dm =
     dm\<lparr>disk_image := (disk_image dm)(pid := d), io_log := io_log dm @ [WritePage pid d]\<rparr>"

definition DiskManager_ReadPage ::
  "page_id_t \<Rightarrow> ('k, 'v) DiskManager \<Rightarrow> ('k, 'v) BPlusTreePage \<times> ('k, 'v) DiskManager" where
  "DiskManager_ReadPage pid dm = (disk_image dm pid, dm\<lparr>io_log := io_log dm @ [ReadPage pid]\<rparr>)"

definition DiskManager_AllocatePage ::
  "('k, 'v) DiskManager \<Rightarrow> page_id_t \<times> ('k, 'v) DiskManager" where
  "DiskManager_AllocatePage dm =
     (next_id dm,
      dm\<lparr>next_id := next_id dm + 1,
         io_log := io_log dm @ [AllocatePage (next_id dm)]\<rparr>)"

definition DiskManager_DeallocatePage ::
  "page_id_t \<Rightarrow> ('k, 'v) DiskManager \<Rightarrow> ('k, 'v) DiskManager" where
  "DiskManager_DeallocatePage pid dm = dm\<lparr>io_log := io_log dm @ [DeallocatePage pid]\<rparr>"

text \<open>
  The pool.  A \<^verbatim>\<open>Page *\<close> is the index of a frame of the array \<^verbatim>\<open>pages_\<close> (\<open>None\<close> is
  \<^verbatim>\<open>nullptr\<close>), and \<open>pages\<close> is the store of the frames.  The pool uses its page table
  through \<^verbatim>\<open>Find\<close>, \<^verbatim>\<open>Insert\<close> and \<^verbatim>\<open>Remove\<close> of the \<^verbatim>\<open>HashTable\<close> interface only; the
  table is the finite map from page ids to frames that these three calls maintain.
\<close>

record ('k, 'v) BufferPoolManager =
  pool_size :: nat
  pages :: "nat \<Rightarrow> ('k, 'v) Page"
  page_table :: "page_id_t \<rightharpoonup> nat"
  replacer :: "nat LRUReplacer"
  free_list :: "nat list"
  disk_manager :: "('k, 'v) DiskManager"

text \<open>The constructor: every frame is on the free list, in the order of the array.\<close>

definition new_Page :: "('k::zero, 'v::zero) Page" where
  "new_Page = \<lparr>frame_page_id = INVALID_PAGE_ID, pin_count = 0, is_dirty = False, frame_data = zero_page\<rparr>"

definition BufferPoolManager_new ::
  "nat \<Rightarrow> ('k::zero, 'v::zero) DiskManager \<Rightarrow> ('k, 'v) BufferPoolManager" where
  "BufferPoolManager_new n dm =
     \<lparr>pool_size = n, pages = (\<lambda>i. new_Page), page_table = Map.empty,
      replacer = LRUReplacer_new, free_list = [0..<n], disk_manager = dm\<rparr>"

text \<open>
  \<^verbatim>\<open>GetVictimPage\<close>.  When \<^verbatim>\<open>Size()\<close> is not zero and \<^verbatim>\<open>Victim\<close> still finds the list
  empty, \<^verbatim>\<open>page\<close> stays null and the assertion dereferences it.
\<close>

definition GetVictimPage ::
  "('k, 'v) BufferPoolManager \<Rightarrow> error + (nat option \<times> ('k, 'v) BufferPoolManager)" where
  "GetVictimPage s =
     (if free_list s \<noteq> [] then
        let page = hd (free_list s); s1 = s\<lparr>free_list := tl (free_list s)\<rparr> in
        if frame_page_id (pages s1 page) \<noteq> INVALID_PAGE_ID then Inl AssertionFailure
        else if pin_count (pages s1 page) \<noteq> 0 then Inl AssertionFailure
        else Inr (Some page, s1)
      else if LRUReplacer_Size (replacer s) = 0 then Inr (None, s)
      else case LRUReplacer_Victim (replacer s) of
             (None, r) \<Rightarrow> Inl NullPointer
           | (Some page, r) \<Rightarrow>
               if pin_count (pages s page) \<noteq> 0 then Inl AssertionFailure
               else Inr (Some page, s\<lparr>replacer := r\<rparr>))"

definition FetchPage ::
  "page_id_t \<Rightarrow> ('k, 'v) BufferPoolManager \<Rightarrow>
     error + (nat option \<times> ('k, 'v) BufferPoolManager)" where
  "FetchPage pid s =
     (case page_table s pid of
        Some target \<Rightarrow>
          let pg = pages s target;
              s1 = s\<lparr>pages := (pages s)(target := pg\<lparr>pin_count := pin_count pg + 1\<rparr>)\<rparr>
          in Inr (Some target, s1\<lparr>replacer := snd (LRUReplacer_Erase target (replacer s1))\<rparr>)
      | None \<Rightarrow>
          (case GetVictimPage s of
             Inl e \<Rightarrow> Inl e
           | Inr (None, s1) \<Rightarrow> Inr (None, s1)
           | Inr (Some target, s1) \<Rightarrow>
               let pg = pages s1 target;
                   dm1 = (if is_dirty pg
                          then DiskManager_WritePage (frame_page_id pg) (frame_data pg) (disk_manager s1)
                          else disk_manager s1);
                   pt1 = (page_table s1)(frame_page_id pg := None);
                   (d, dm2) = DiskManager_ReadPage pid dm1;
                   pg1 = pg\<lparr>frame_data := d, pin_count := 1, is_dirty := False, frame_page_id := pid\<rparr>
               in Inr (Some target,
                       s1\<lparr>pages := (pages s1)(target := pg1),
                          page_table := pt1(pid \<mapsto> target),
                          disk_manager := dm2\<rparr>)))"

text \<open>\<^verbatim>\<open>UnpinPage\<close> of project2: the dirty flag is or-ed in, and a pin count that is not
  positive fails the assertion.\<close>

definition UnpinPage ::
  "page_id_t \<Rightarrow> bool \<Rightarrow> ('k, 'v) BufferPoolManager \<Rightarrow>
     error + (bool \<times> ('k, 'v) BufferPoolManager)" where
  "UnpinPage pid dirty s =
     (case page_table s pid of
        None \<Rightarrow> Inr (False, s)
      | Some target \<Rightarrow>
          let pg = pages s target;
              pg1 = pg\<lparr>is_dirty := is_dirty pg \<or> dirty\<rparr>
          in if \<not> pin_count pg1 > 0 then Inl AssertionFailure
             else let pg2 = pg1\<lparr>pin_count := pin_count pg1 - 1\<rparr>;
                      s1 = s\<lparr>pages := (pages s)(target := pg2)\<rparr>
                  in if pin_count pg2 = 0
                     then Inr (True, s1\<lparr>replacer := LRUReplacer_Insert target (replacer s1)\<rparr>)
                     else Inr (True, s1))"

text \<open>
  \<^verbatim>\<open>UnpinPage\<close> of project1 (the copy of buffer_pool_manager.cpp that follows
  lru_replacer.cpp in the sources): the dirty flag is assigned, and a pin count that is
  not positive returns false after the assignment.
\<close>

definition UnpinPage_project1 ::
  "page_id_t \<Rightarrow> bool \<Rightarrow> ('k, 'v) BufferPoolManager \<Rightarrow> bool \<times> ('k, 'v) BufferPoolManager" where
  "UnpinPage_project1 pid dirty s =
     (case page_table s pid of
        None \<Rightarrow> (False, s)
      | Some target \<Rightarrow>
          let pg1 = (pages s target)\<lparr>is_dirty := dirty\<rparr>;
              s1 = s\<lparr>pages := (pages s)(target := pg1)\<rparr>
          in if pin_count pg1 \<le> 0 then (False, s1)
             else let pg2 = pg1\<lparr>pin_count := pin_count pg1 - 1\<rparr>;
                      s2 = s1\<lparr>pages := (pages s1)(target := pg2)\<rparr>
                  in if pin_count pg2 = 0
                     then (True, s2\<lparr>replacer := LRUReplacer_Insert target (replacer s2)\<rparr>)
                     else (True, s2))"

definition FlushPage ::
  "page_id_t \<Rightarrow> ('k, 'v) BufferPoolManager \<Rightarrow>
     error + (bool \<times> ('k, 'v) BufferPoolManager)" where
  "FlushPage pid s =
     (case page_table s pid of
        None \<Rightarrow> Inr (False, s)
      | Some target \<Rightarrow>
          let pg = pages s target in
          if frame_page_id pg = INVALID_PAGE_ID then Inl AssertionFailure
          else if is_dirty pg
               then Inr (True,
                      s\<lparr>disk_manager := DiskManager_WritePage pid (frame_data pg) (disk_manager s),
                        pages := (pages s)(target := pg\<lparr>is_dirty := False\<rparr>)\<rparr>)
               else Inr (True, s))"

definition DeletePage ::
  "page_id_t \<Rightarrow> ('k::zero, 'v::zero) BufferPoolManager \<Rightarrow> bool \<times> ('k, 'v) BufferPoolManager" where
  "DeletePage pid s =
     (case page_table s pid of
        Some target \<Rightarrow>
          if pin_count (pages s target) > 0 then (False, s)
          else let r = snd (LRUReplacer_Erase target (replacer s));
                   pt = (page_table s)(pid := None);
                   pg = (ResetMemory ((pages s target)\<lparr>is_dirty := False\<rparr>))
                          \<lparr>frame_page_id := INVALID_PAGE_ID\<rparr>;
                   s1 = s\<lparr>replacer := r, page_table := pt,
                          pages := (pages s)(target := pg),
                          free_list := free_list s @ [target]\<rparr>
               in (True, s1\<lparr>disk_manager := DiskManager_DeallocatePage pid (disk_manager s1)\<rparr>)
      | None \<Rightarrow>
          (True, s\<lparr>disk_manager := DiskManager_DeallocatePage pid (disk_manager s)\<rparr>))"

text \<open>\<^verbatim>\<open>NewPage\<close> returns the frame and, in its reference parameter, the new page id.\<close>

definition NewPage ::
  "('k::zero, 'v::zero) BufferPoolManager \<Rightarrow>
     error + ((nat \<times> page_id_t) option \<times> ('k, 'v) BufferPoolManager)" where
  "NewPage s =
     (case GetVictimPage s of
        Inl e \<Rightarrow> Inl e
      | Inr (None, s1) \<Rightarrow> Inr (None, s1)
      | Inr (Some target, s1) \<Rightarrow>
          let pg = pages s1 target;
              dm1 = (if is_dirty pg
                     then DiskManager_WritePage (frame_page_id pg) (frame_data pg) (disk_manager s1)
                     else disk_manager s1);
              pt1 = (page_table s1)(frame_page_id pg := None);
              (pid, dm2) = DiskManager_AllocatePage dm1;
              pg1 = (ResetMemory (pg\<lparr>frame_page_id := pid\<rparr>))\<lparr>is_dirty := False, pin_count := 1\<rparr>
          in Inr (Some (target, pid),
                  s1\<lparr>pages := (pages s1)(target := pg1),
                     page_table := pt1(pid \<mapsto> target),
                     disk_manager := dm2\<rparr>))"

text \<open>The replacer after a history: what the proofs about it maintain.\<close>

definition lru_ok :: "'a lru_op list \<Rightarrow> 'a LRUReplacer \<Rightarrow> bool" where
  "lru_ok ops r \<longleftrightarrow>
     distinct (chain r) \<and> hashmap r = set (chain r) \<and>
     set (chain r) = {v. last_insert ops v \<noteq> None} \<and>
     sorted_wrt (\<lambda>a b. the (last_insert ops a) > the (last_insert ops b)) (chain r)"

text \<open>
  The minimum size named by the specification: \<open>\<lfloor>max_size / 2\<rfloor>\<close> for a page that is not
  the root, 1 for a root leaf, 2 for a root that is an internal page.
\<close>

definition spec_min_size :: "('k, 'v) BPlusTreePage \<Rightarrow> int" where
  "spec_min_size p =
     (if parent_page_id p \<noteq> INVALID_PAGE_ID then max_size p div 2
      else if page_type p = LEAF_PAGE then 1 else 2)"

text \<open>
  The assertions of \<^verbatim>\<open>GetVictimPage\<close> hold in a pool whose lists are in order: a frame on
  the free list or in the replacer has pin count 0, a frame on the free list holds no
  page, and the replacer's map and list have the same members.
\<close>

definition lists_ok :: "('k, 'v) BufferPoolManager \<Rightarrow> bool" where
  "lists_ok s \<longleftrightarrow>
     list_all (\<lambda>f. pin_count (pages s f) = 0 \<and> frame_page_id (pages s f) = INVALID_PAGE_ID)
       (free_list s) \<and>
     list_all (\<lambda>f. pin_count (pages s f) = 0) (chain (replacer s)) \<and>
     hashmap (replacer s) = set (chain (replacer s))"

text \<open>A disk without pages written, whose first new page id is 1: for the examples.\<close>

definition empty_disk :: "('k::zero, 'v::zero) DiskManager" where
  "empty_disk = \<lparr>disk_image = (\<lambda>pid. zero_page), next_id = 1, io_log = []\<rparr>"

section \<open>Tree pages in the frames of the pool\<close>

text \<open>
  The index reads and writes a tree page through a pointer into the byte buffer of the
  frame that holds it (\<^verbatim>\<open>reinterpret_cast\<close> of \<^verbatim>\<open>GetData()\<close>): a pointer to a tree page is
  the index of its frame.  \<open>page_at\<close> reads the page a frame holds, \<open>set_page\<close> writes it.
  Functions of the page classes that use two pages or the buffer pool are functions on
  the pool, so that every read and write happens in the order of the source, on the frame
  the pointer names.
\<close>

definition page_at :: "('k, 'v) BufferPoolManager \<Rightarrow> nat \<Rightarrow> ('k, 'v) BPlusTreePage" where
  "page_at s f = frame_data (pages s f)"

definition set_page ::
  "nat \<Rightarrow> ('k, 'v) BPlusTreePage \<Rightarrow> ('k, 'v) BufferPoolManager \<Rightarrow> ('k, 'v) BufferPoolManager" where
  "set_page f p s = s\<lparr>pages := (pages s)(f := (pages s f)\<lparr>frame_data := p\<rparr>)\<rparr>"

text \<open>Sequencing of calls that may fail, and a \<^verbatim>\<open>for\<close> loop over the values of its index.\<close>

definition ebind :: "error + 'a \<Rightarrow> ('a \<Rightarrow> error + 'b) \<Rightarrow> error + 'b" where
  "ebind m f = (case m of Inl e \<Rightarrow> Inl e | Inr x \<Rightarrow> f x)"

fun efold :: "('a \<Rightarrow> 's \<Rightarrow> error + 's) \<Rightarrow> 'a list \<Rightarrow> 's \<Rightarrow> error + 's" where
  "efold f [] s = Inr s"
| "efold f (x # xs) s = (case f x s of Inl e \<Rightarrow> Inl e | Inr s1 \<Rightarrow> efold f xs s1)"

text \<open>
  \<^verbatim>\<open>FetchPage\<close> of the pool followed by a use of the pointer that the source does not
  guard: a null pointer is dereferenced.
\<close>

definition FetchPage_deref ::
  "page_id_t \<Rightarrow> ('k, 'v) BufferPoolManager \<Rightarrow> error + (nat \<times> ('k, 'v) BufferPoolManager)" where
  "FetchPage_deref pid s =
     ebind (FetchPage pid s)
       (\<lambda>(po, s1). case po of None \<Rightarrow> Inl NullPointer | Some page \<Rightarrow> Inr (page, s1))"

text \<open>
  \<^verbatim>\<open>memmove(a + dst, a + src, n * sizeof(MappingType))\<close>: the \<open>n\<close> entries from slot \<open>src\<close>
  are copied to the slots from \<open>dst\<close>, as if through a buffer.
\<close>

definition memmove :: "(int \<Rightarrow> 'a) \<Rightarrow> int \<Rightarrow> int \<Rightarrow> int \<Rightarrow> (int \<Rightarrow> 'a)" where
  "memmove a dst src n = (\<lambda>j. if dst \<le> j \<and> j < dst + n then a (j - dst + src) else a j)"

section \<open>Internal pages (page/b_plus_tree_internal_page.cpp)\<close>

text \<open>
  \<open>imax\<close> is the value of
  \<^verbatim>\<open>(PAGE_SIZE - sizeof(BPlusTreeInternalPage)) / sizeof(MappingType) - 1\<close>, a constant
  of the build (the headers that fix it are not among the sources).
\<close>

definition Internal_Init ::
  "page_id_t \<Rightarrow> page_id_t \<Rightarrow> int \<Rightarrow> ('k, 'v) BPlusTreePage \<Rightarrow> ('k, 'v) BPlusTreePage" where
  "Internal_Init pid parent_id imax p =
     p\<lparr>max_size := imax, psize := 0, page_id := pid, page_type := INTERNAL_PAGE,
       parent_page_id := parent_id\<rparr>"

definition Internal_KeyAt :: "('k, 'v) BPlusTreePage \<Rightarrow> int \<Rightarrow> error + 'k" where
  "Internal_KeyAt p index =
     (if index \<ge> 0 \<and> index < GetSize p then Inr (fst (internal_array p index))
      else Inl AssertionFailure)"

definition Internal_SetKeyAt ::
  "int \<Rightarrow> 'k \<Rightarrow> ('k, 'v) BPlusTreePage \<Rightarrow> error + ('k, 'v) BPlusTreePage" where
  "Internal_SetKeyAt index key p =
     (if index \<ge> 0 \<and> index < GetSize p
      then Inr (p\<lparr>internal_array :=
                  (internal_array p)(index := (key, snd (internal_array p index)))\<rparr>)
      else Inl AssertionFailure)"

definition Internal_ValueAt :: "('k, 'v) BPlusTreePage \<Rightarrow> int \<Rightarrow> error + page_id_t" where
  "Internal_ValueAt p index =
     (if index \<ge> 0 \<and> index < GetSize p then Inr (snd (internal_array p index))
      else Inl AssertionFailure)"

text \<open>\<^verbatim>\<open>ValueIndex\<close>: the first slot below \<open>size\<close> with the value, or \<open>-1\<close>.\<close>

definition Internal_ValueIndex :: "('k, 'v) BPlusTreePage \<Rightarrow> page_id_t \<Rightarrow> int" where
  "Internal_ValueIndex p v =
     (case List.find (\<lambda>i. snd (internal_array p i) = v) [0 .. GetSize p - 1] of
        Some i \<Rightarrow> i
      | None \<Rightarrow> - 1)"

text \<open>
  The binary search of \<^verbatim>\<open>Lookup\<close>.  \<^verbatim>\<open>(end - start) / 2\<close> divides a number that is not
  negative.  The comparator orders the keys: \<^verbatim>\<open>comparator(a, b) <= 0\<close> is \<open>a \<le> b\<close>.
\<close>

function Internal_Lookup_loop :: "(int \<Rightarrow> 'k::linorder \<times> page_id_t) \<Rightarrow> 'k \<Rightarrow> int \<Rightarrow> int \<Rightarrow> int" where
  "Internal_Lookup_loop a key start stop =
     (if start \<le> stop then
        let mid = (stop - start) div 2 + start in
        if fst (a mid) \<le> key then Internal_Lookup_loop a key (mid + 1) stop
        else Internal_Lookup_loop a key start (mid - 1)
      else start)"
  by pat_completeness auto
termination
  by (relation "measure (\<lambda>(a, key, start, stop). nat (stop + 1 - start))") auto

definition Internal_Lookup :: "'k::linorder \<Rightarrow> ('k, 'v) BPlusTreePage \<Rightarrow> error + page_id_t" where
  "Internal_Lookup key p =
     (let pageSize = GetSize p in
      if \<not> pageSize > 1 then Inl AssertionFailure
      else let start = Internal_Lookup_loop (internal_array p) key 1 (pageSize - 1)
           in Inr (snd (internal_array p (start - 1))))"

definition Internal_PopulateNewRoot ::
  "page_id_t \<Rightarrow> 'k \<Rightarrow> page_id_t \<Rightarrow> ('k, 'v) BPlusTreePage \<Rightarrow> ('k, 'v) BPlusTreePage" where
  "Internal_PopulateNewRoot old_value new_key new_value p =
     (let a = internal_array p;
          a1 = a(0 := (fst (a 0), old_value));
          a2 = a1(1 := (new_key, new_value))
      in SetSize 2 (p\<lparr>internal_array := a2\<rparr>))"

definition Internal_InsertNodeAfter ::
  "page_id_t \<Rightarrow> 'k \<Rightarrow> page_id_t \<Rightarrow> ('k, 'v) BPlusTreePage \<Rightarrow>
     error + (int \<times> ('k, 'v) BPlusTreePage)" where
  "Internal_InsertNodeAfter old_value new_key new_value p =
     (let indexPosToInsert = Internal_ValueIndex p old_value + 1 in
      if \<not> indexPosToInsert > 0 then Inl AssertionFailure
      else let p1 = IncreaseSize 1 p;
               newSize = GetSize p1;
               a1 = foldl (\<lambda>a i. a(i := a (i - 1))) (internal_array p1)
                      (rev [indexPosToInsert + 1 .. newSize - 1]);
               a2 = a1(indexPosToInsert := (new_key, new_value))
           in Inr (newSize, p1\<lparr>internal_array := a2\<rparr>))"

definition Internal_Remove :: "int \<Rightarrow> ('k, 'v) BPlusTreePage \<Rightarrow> error + ('k, 'v) BPlusTreePage" where
  "Internal_Remove index p =
     (let curPageSize = GetSize p in
      if \<not> (index \<ge> 0 \<and> index < curPageSize) then Inl AssertionFailure
      else let a1 = foldl (\<lambda>a i. a(i - 1 := a i)) (internal_array p)
                      [index + 1 .. curPageSize - 1]
           in Inr (IncreaseSize (- 1) (p\<lparr>internal_array := a1\<rparr>)))"

definition Internal_RemoveAndReturnOnlyChild ::
  "('k, 'v) BPlusTreePage \<Rightarrow> error + (page_id_t \<times> ('k, 'v) BPlusTreePage)" where
  "Internal_RemoveAndReturnOnlyChild p =
     ebind (Internal_ValueAt p 0) (\<lambda>res. Inr (res, IncreaseSize (- 1) p))"

definition Internal_CopyLastFrom ::
  "'k \<times> page_id_t \<Rightarrow> ('k, 'v) BPlusTreePage \<Rightarrow> error + ('k, 'v) BPlusTreePage" where
  "Internal_CopyLastFrom pair p =
     (let pageSize = GetSize p in
      if \<not> pageSize < GetMaxSize p then Inl AssertionFailure
      else Inr (IncreaseSize 1 (p\<lparr>internal_array := (internal_array p)(pageSize := pair)\<rparr>)))"

text \<open>
  The pool calls that re-parent a child, as \<^verbatim>\<open>MoveHalfTo\<close> and \<^verbatim>\<open>MoveAllTo\<close> make them
  for the entry in slot \<open>i\<close> of the page in frame \<open>f\<close>: the child is fetched, its parent id
  is set, and it is unpinned as dirty under the id read from the slot again.
\<close>

definition reparent_child ::
  "nat \<Rightarrow> int \<Rightarrow> page_id_t \<Rightarrow> ('k, 'v) BufferPoolManager \<Rightarrow> error + ('k, 'v) BufferPoolManager" where
  "reparent_child f i new_parent s =
     ebind (FetchPage_deref (snd (internal_array (page_at s f) i)) s)
       (\<lambda>(child, s1).
          let s2 = set_page child ((page_at s1 child)\<lparr>parent_page_id := new_parent\<rparr>) s1
          in ebind (UnpinPage (snd (internal_array (page_at s2 f) i)) True s2)
               (\<lambda>(ok, s3). Inr s3))"

definition Internal_MoveHalfTo ::
  "nat \<Rightarrow> nat \<Rightarrow> ('k, 'v) BufferPoolManager \<Rightarrow> error + ('k, 'v) BufferPoolManager" where
  "Internal_MoveHalfTo f recipient s =
     (let curSize = GetSize (page_at s f);
          mid = curSize sdiv 2;
          recipientPageId = page_id (page_at s recipient)
      in ebind
           (efold
              (\<lambda>i s0.
                 let r = page_at s0 recipient;
                     s1 = set_page recipient
                            (r\<lparr>internal_array :=
                                 (internal_array r)(i - mid := internal_array (page_at s0 f) i)\<rparr>) s0
                 in reparent_child f i recipientPageId s1)
              [mid .. curSize - 1] s)
           (\<lambda>s2.
              let s3 = set_page f (SetSize mid (page_at s2 f)) s2
              in Inr (set_page recipient (SetSize (curSize - mid) (page_at s3 recipient)) s3)))"

definition Internal_MoveAllTo ::
  "nat \<Rightarrow> nat \<Rightarrow> int \<Rightarrow> ('k, 'v) BufferPoolManager \<Rightarrow> error + ('k, 'v) BufferPoolManager" where
  "Internal_MoveAllTo f recipient index_in_parent s =
     ebind (FetchPage_deref (parent_page_id (page_at s f)) s)
       (\<lambda>(parent, s1).
     ebind (Internal_KeyAt (page_at s1 parent) index_in_parent)
       (\<lambda>key.
     ebind (Internal_SetKeyAt 0 key (page_at s1 f))
       (\<lambda>p1. let s2 = set_page f p1 s1 in
     ebind (UnpinPage (page_id (page_at s2 parent)) False s2)
       (\<lambda>(ok, s3).
          let curPageSize = GetSize (page_at s3 f);
              startIdxInRecipient = GetSize (page_at s3 recipient);
              recipientPageId = page_id (page_at s3 recipient)
          in ebind
               (efold
                  (\<lambda>i s0.
                     let r = page_at s0 recipient;
                         s4 = set_page recipient
                                (r\<lparr>internal_array :=
                                     (internal_array r)
                                       (startIdxInRecipient + i := internal_array (page_at s0 f) i)\<rparr>)
                                s0
                     in reparent_child f i recipientPageId s4)
                  [0 .. curPageSize - 1] s3)
               (\<lambda>s5.
                  let s6 = set_page recipient
                             (SetSize (startIdxInRecipient + curPageSize) (page_at s5 recipient)) s5
                  in Inr (set_page f (SetSize 0 (page_at s6 f)) s6))))))"

text \<open>
  \<^verbatim>\<open>MoveFirstToEndOf\<close>, \<^verbatim>\<open>CopyFirstFrom\<close> and \<^verbatim>\<open>MoveLastToFrontOf\<close>.  These assert that
  the child page was fetched; the parent page is used without a check.
\<close>

definition Internal_MoveFirstToEndOf ::
  "nat \<Rightarrow> nat \<Rightarrow> ('k, 'v) BufferPoolManager \<Rightarrow> error + ('k, 'v) BufferPoolManager" where
  "Internal_MoveFirstToEndOf f recipient s =
     ebind (Internal_KeyAt (page_at s f) 0)
       (\<lambda>k0.
     ebind (Internal_ValueAt (page_at s f) 0)
       (\<lambda>v0.
          let firstPair = (k0, v0);
              p = page_at s f;
              currentPageSize = GetSize p;
              s1 = set_page f
                     (IncreaseSize (- 1)
                        (p\<lparr>internal_array := memmove (internal_array p) 0 1 (currentPageSize - 1)\<rparr>))
                     s
          in
     ebind (Internal_CopyLastFrom firstPair (page_at s1 recipient))
       (\<lambda>r1. let s2 = set_page recipient r1 s1 in
     ebind (FetchPage (snd firstPair) s2)
       (\<lambda>(po, s3). case po of
            None \<Rightarrow> Inl AssertionFailure
          | Some child \<Rightarrow>
              let s4 = set_page child
                         ((page_at s3 child)\<lparr>parent_page_id := page_id (page_at s3 recipient)\<rparr>) s3
              in
     ebind (UnpinPage (page_id (page_at s4 child)) True s4)
       (\<lambda>(ok, s5).
     ebind (FetchPage_deref (parent_page_id (page_at s5 f)) s5)
       (\<lambda>(parent, s6).
     ebind (Internal_SetKeyAt
              (Internal_ValueIndex (page_at s6 parent) (page_id (page_at s6 f)))
              (fst (internal_array (page_at s6 f) 0)) (page_at s6 parent))
       (\<lambda>par1. let s7 = set_page parent par1 s6 in
     ebind (UnpinPage (parent_page_id (page_at s7 f)) True s7)
       (\<lambda>(ok, s8). Inr s8))))))))"

definition Internal_CopyFirstFrom ::
  "'k \<times> page_id_t \<Rightarrow> int \<Rightarrow> nat \<Rightarrow> ('k, 'v) BufferPoolManager \<Rightarrow>
     error + ('k, 'v) BufferPoolManager" where
  "Internal_CopyFirstFrom pair parent_index f s =
     (let p = page_at s f;
          pageSize = GetSize p;
          p1 = IncreaseSize 1 (p\<lparr>internal_array := memmove (internal_array p) 1 0 pageSize\<rparr>);
          p2 = p1\<lparr>internal_array := (internal_array p1)(0 := pair)\<rparr>;
          s1 = set_page f p2 s
      in
     ebind (FetchPage (snd pair) s1)
       (\<lambda>(po, s2). case po of
            None \<Rightarrow> Inl AssertionFailure
          | Some child \<Rightarrow>
              let s3 = set_page child
                         ((page_at s2 child)\<lparr>parent_page_id := page_id (page_at s2 f)\<rparr>) s2
              in
     ebind (UnpinPage (page_id (page_at s3 child)) True s3)
       (\<lambda>(ok, s4).
     ebind (FetchPage_deref (parent_page_id (page_at s4 f)) s4)
       (\<lambda>(parent, s5).
     ebind (Internal_SetKeyAt parent_index (fst (internal_array (page_at s5 f) 0))
              (page_at s5 parent))
       (\<lambda>par1. let s6 = set_page parent par1 s5 in
     ebind (UnpinPage (parent_page_id (page_at s6 f)) True s6)
       (\<lambda>(ok, s7). Inr s7))))))"

definition Internal_MoveLastToFrontOf ::
  "nat \<Rightarrow> nat \<Rightarrow> int \<Rightarrow> ('k, 'v) BufferPoolManager \<Rightarrow> error + ('k, 'v) BufferPoolManager" where
  "Internal_MoveLastToFrontOf f recipient parent_index s =
     (let lastIdx = GetSize (page_at s f) - 1 in
     ebind (Internal_KeyAt (page_at s f) lastIdx)
       (\<lambda>k.
     ebind (Internal_ValueAt (page_at s f) lastIdx)
       (\<lambda>v.
          let s1 = set_page f (IncreaseSize (- 1) (page_at s f)) s
          in Internal_CopyFirstFrom (k, v) parent_index recipient s1)))"

section \<open>Leaf pages (page/b_plus_tree_leaf_page.cpp)\<close>

text \<open>
  \<open>lmax\<close> is the value of
  \<^verbatim>\<open>(PAGE_SIZE - sizeof(BPlusTreeLeafPage)) / sizeof(MappingType) - 1\<close>, a constant of the
  build like the one of the internal pages.
\<close>

definition Leaf_Init ::
  "page_id_t \<Rightarrow> page_id_t \<Rightarrow> int \<Rightarrow> ('k, 'v) BPlusTreePage \<Rightarrow> ('k, 'v) BPlusTreePage" where
  "Leaf_Init pid parent_id lmax p =
     p\<lparr>page_type := LEAF_PAGE, max_size := lmax, psize := 0, page_id := pid,
       parent_page_id := parent_id, next_page_id := INVALID_PAGE_ID\<rparr>"

text \<open>The binary search of \<^verbatim>\<open>KeyIndex\<close>: the first slot whose key is not below \<open>key\<close>.\<close>

function Leaf_KeyIndex_loop :: "(int \<Rightarrow> 'k::linorder \<times> 'v) \<Rightarrow> 'k \<Rightarrow> int \<Rightarrow> int \<Rightarrow> int" where
  "Leaf_KeyIndex_loop a key start stop =
     (if start \<le> stop then
        let mid = (stop - start) div 2 + start in
        if fst (a mid) \<ge> key then Leaf_KeyIndex_loop a key start (mid - 1)
        else Leaf_KeyIndex_loop a key (mid + 1) stop
      else stop + 1)"
  by pat_completeness auto
termination
  by (relation "measure (\<lambda>(a, key, start, stop). nat (stop + 1 - start))") auto

definition Leaf_KeyIndex :: "('k::linorder, 'v) BPlusTreePage \<Rightarrow> 'k \<Rightarrow> int" where
  "Leaf_KeyIndex p key = Leaf_KeyIndex_loop (leaf_array p) key 0 (GetSize p - 1)"

definition Leaf_KeyAt :: "('k, 'v) BPlusTreePage \<Rightarrow> int \<Rightarrow> error + 'k" where
  "Leaf_KeyAt p index =
     (if index \<ge> 0 \<and> index < GetSize p then Inr (fst (leaf_array p index))
      else Inl AssertionFailure)"

definition Leaf_GetItem :: "('k, 'v) BPlusTreePage \<Rightarrow> int \<Rightarrow> error + ('k \<times> 'v)" where
  "Leaf_GetItem p index =
     (if index \<ge> 0 \<and> index < GetSize p then Inr (leaf_array p index)
      else Inl AssertionFailure)"

definition Leaf_Insert ::
  "'k::linorder \<Rightarrow> 'v \<Rightarrow> ('k, 'v) BPlusTreePage \<Rightarrow> error + (int \<times> ('k, 'v) BPlusTreePage)" where
  "Leaf_Insert key val p =
     (let idxToInsert = Leaf_KeyIndex p key in
      if \<not> idxToInsert \<ge> 0 then Inl AssertionFailure
      else let p1 = IncreaseSize 1 p;
               curPageSize = GetSize p1;
               a1 = foldl (\<lambda>a i. a(i := a (i - 1))) (leaf_array p1)
                      (rev [idxToInsert + 1 .. curPageSize - 1]);
               a2 = a1(idxToInsert := (key, val))
           in Inr (curPageSize, p1\<lparr>leaf_array := a2\<rparr>))"

text \<open>\<^verbatim>\<open>Lookup\<close> returns the value in its reference parameter; \<open>None\<close> is the result false.\<close>

definition Leaf_Lookup :: "'k::linorder \<Rightarrow> ('k, 'v) BPlusTreePage \<Rightarrow> 'v option" where
  "Leaf_Lookup key p =
     (let idxToFind = Leaf_KeyIndex p key;
          pageSize = GetSize p
      in if idxToFind \<ge> 0 \<and> idxToFind < pageSize then
           if fst (leaf_array p idxToFind) = key then Some (snd (leaf_array p idxToFind))
           else None
         else None)"

definition Leaf_RemoveAndDeleteRecord ::
  "'k::linorder \<Rightarrow> ('k, 'v) BPlusTreePage \<Rightarrow> error + (int \<times> ('k, 'v) BPlusTreePage)" where
  "Leaf_RemoveAndDeleteRecord key p =
     (let firstIdxLargerEqualThanKey = Leaf_KeyIndex p key;
          pageSize = GetSize p
      in if firstIdxLargerEqualThanKey \<ge> pageSize then Inr (pageSize, p)
         else ebind (Leaf_KeyAt p firstIdxLargerEqualThanKey)
                (\<lambda>k. if key \<noteq> k then Inr (pageSize, p)
                     else let targetIdx = firstIdxLargerEqualThanKey;
                              a1 = memmove (leaf_array p) targetIdx (targetIdx + 1)
                                     (pageSize - targetIdx - 1)
                          in Inr (pageSize - 1, IncreaseSize (- 1) (p\<lparr>leaf_array := a1\<rparr>))))"

text \<open>
  \<^verbatim>\<open>MoveHalfTo\<close> of the page in frame \<open>f\<close> to the page in frame \<open>recipient\<close>.  The loop
  copies slot by slot, and each slot is read when its turn comes.
\<close>

definition Leaf_MoveHalfTo ::
  "nat \<Rightarrow> nat \<Rightarrow> ('k, 'v) BufferPoolManager \<Rightarrow> ('k, 'v) BufferPoolManager" where
  "Leaf_MoveHalfTo f recipient s =
     (let totalSize = GetMaxSize (page_at s f) + 1;
          idxToCopy = totalSize sdiv 2;
          s1 = foldl
                 (\<lambda>s0 i.
                    let r = page_at s0 recipient
                    in set_page recipient
                         (r\<lparr>leaf_array :=
                              (leaf_array r)(i - idxToCopy := leaf_array (page_at s0 f) i)\<rparr>) s0)
                 s [idxToCopy .. totalSize - 1];
          s2 = set_page recipient
                 ((page_at s1 recipient)\<lparr>next_page_id := next_page_id (page_at s1 f)\<rparr>) s1;
          s3 = set_page f ((page_at s2 f)\<lparr>next_page_id := page_id (page_at s2 recipient)\<rparr>) s2;
          s4 = set_page f (SetSize idxToCopy (page_at s3 f)) s3
      in set_page recipient (SetSize (totalSize - idxToCopy) (page_at s4 recipient)) s4)"

definition Leaf_MoveAllTo ::
  "nat \<Rightarrow> nat \<Rightarrow> ('k, 'v) BufferPoolManager \<Rightarrow> ('k, 'v) BufferPoolManager" where
  "Leaf_MoveAllTo f recipient s =
     (let curPageSize = GetSize (page_at s f);
          startIdxToMove = GetSize (page_at s recipient);
          s1 = foldl
                 (\<lambda>s0 i.
                    let r = page_at s0 recipient
                    in set_page recipient
                         (r\<lparr>leaf_array :=
                              (leaf_array r)(startIdxToMove + i := leaf_array (page_at s0 f) i)\<rparr>)
                         s0)
                 s [0 .. curPageSize - 1];
          s2 = set_page recipient
                 ((page_at s1 recipient)\<lparr>next_page_id := next_page_id (page_at s1 f)\<rparr>) s1;
          s3 = set_page recipient (IncreaseSize curPageSize (page_at s2 recipient)) s2
      in set_page f (SetSize 0 (page_at s3 f)) s3)"

definition Leaf_CopyLastFrom ::
  "'k \<times> 'v \<Rightarrow> ('k, 'v) BPlusTreePage \<Rightarrow> error + ('k, 'v) BPlusTreePage" where
  "Leaf_CopyLastFrom item p =
     (let pageSize = GetSize p in
      if \<not> pageSize < GetMaxSize p then Inl AssertionFailure
      else Inr (IncreaseSize 1 (p\<lparr>leaf_array := (leaf_array p)(pageSize := item)\<rparr>)))"

text \<open>\<^verbatim>\<open>MoveFirstToEndOf\<close> moves \<^verbatim>\<open>GetSize()\<close> slots down, one more than the page holds.\<close>

definition Leaf_MoveFirstToEndOf ::
  "nat \<Rightarrow> nat \<Rightarrow> ('k, 'v) BufferPoolManager \<Rightarrow> error + ('k, 'v) BufferPoolManager" where
  "Leaf_MoveFirstToEndOf f recipient s =
     ebind (Leaf_GetItem (page_at s f) 0)
       (\<lambda>pair.
          let p = page_at s f;
              s1 = set_page f
                     (IncreaseSize (- 1)
                        (p\<lparr>leaf_array := memmove (leaf_array p) 0 1 (GetSize p)\<rparr>)) s
          in
     ebind (Leaf_CopyLastFrom pair (page_at s1 recipient))
       (\<lambda>r1. let s2 = set_page recipient r1 s1 in
     ebind (FetchPage_deref (parent_page_id (page_at s2 f)) s2)
       (\<lambda>(parent, s3).
     ebind (Internal_SetKeyAt
              (Internal_ValueIndex (page_at s3 parent) (page_id (page_at s3 f)))
              (fst (leaf_array (page_at s3 f) 0)) (page_at s3 parent))
       (\<lambda>par1. let s4 = set_page parent par1 s3 in
     ebind (UnpinPage (parent_page_id (page_at s4 f)) True s4)
       (\<lambda>(ok, s5). Inr s5)))))"

definition Leaf_CopyFirstFrom ::
  "'k \<times> 'v \<Rightarrow> int \<Rightarrow> nat \<Rightarrow> ('k, 'v) BufferPoolManager \<Rightarrow> error + ('k, 'v) BufferPoolManager" where
  "Leaf_CopyFirstFrom item parentIndex f s =
     (let p = page_at s f;
          pageSize = GetSize p;
          p1 = p\<lparr>leaf_array := (memmove (leaf_array p) 1 0 pageSize)(0 := item)\<rparr>;
          s1 = set_page f (IncreaseSize 1 p1) s
      in
     ebind (FetchPage_deref (parent_page_id (page_at s1 f)) s1)
       (\<lambda>(parent, s2).
     ebind (Internal_SetKeyAt parentIndex (fst (leaf_array (page_at s2 f) 0)) (page_at s2 parent))
       (\<lambda>par1. let s3 = set_page parent par1 s2 in
     ebind (UnpinPage (parent_page_id (page_at s3 f)) True s3)
       (\<lambda>(ok, s4). Inr s4))))"

definition Leaf_MoveLastToFrontOf ::
  "nat \<Rightarrow> nat \<Rightarrow> int \<Rightarrow> ('k, 'v) BufferPoolManager \<Rightarrow> error + ('k, 'v) BufferPoolManager" where
  "Leaf_MoveLastToFrontOf f recipient parentIndex s =
     ebind (Leaf_GetItem (page_at s f) (GetSize (page_at s f) - 1))
       (\<lambda>lastPair.
          let s1 = set_page f (IncreaseSize (- 1) (page_at s f)) s
          in Leaf_CopyFirstFrom lastPair parentIndex recipient s1)"

section \<open>B+Tree (index/b_plus_tree.cpp)\<close>

text \<open>
  Modelled from the spec: the transaction context (its class is not among the sources),
  the set of pages latched during the current tree operation, in the order they were
  added, and the set of pages scheduled for deletion.  A \<^verbatim>\<open>Transaction *\<close> is a
  \<open>Transaction option\<close>, \<open>None\<close> for \<^verbatim>\<open>nullptr\<close>.
\<close>

record Transaction =
  page_set :: "nat list"
  deleted_page_set :: "page_id_t set"

definition Transaction_new :: Transaction where
  "Transaction_new = \<lparr>page_set = [], deleted_page_set = {}\<rparr>"

definition AddIntoPageSet :: "nat \<Rightarrow> Transaction \<Rightarrow> Transaction" where
  "AddIntoPageSet page tx = tx\<lparr>page_set := page_set tx @ [page]\<rparr>"

definition AddIntoDeletedPageSet :: "page_id_t \<Rightarrow> Transaction \<Rightarrow> Transaction" where
  "AddIntoDeletedPageSet pid tx = tx\<lparr>deleted_page_set := insert pid (deleted_page_set tx)\<rparr>"

text \<open>
  The tree.  \<open>header_record\<close> is the record of this index in the header page (modelled from
  the spec: page 0 maps index names to root page ids; \<^verbatim>\<open>InsertRecord\<close> adds the record of a
  name that has none, \<^verbatim>\<open>UpdateRecord\<close> changes the record of a name that has one).
  \<open>leaf_max_size\<close> and \<open>internal_max_size\<close> are the two constants that \<^verbatim>\<open>Init\<close> computes
  from \<^verbatim>\<open>PAGE_SIZE\<close>.  Latches are taken and released by one thread and have no effect on
  the values computed; they are left out.
\<close>

record ('k, 'v) BPlusTree =
  root_page_id :: page_id_t
  buffer_pool_manager :: "('k, 'v) BufferPoolManager"
  header_record :: "page_id_t option"
  leaf_max_size :: int
  internal_max_size :: int

definition BPlusTree_new ::
  "('k, 'v) BufferPoolManager \<Rightarrow> int \<Rightarrow> int \<Rightarrow> ('k, 'v) BPlusTree" where
  "BPlusTree_new bpm lmax imax =
     \<lparr>root_page_id = INVALID_PAGE_ID, buffer_pool_manager = bpm, header_record = None,
      leaf_max_size = lmax, internal_max_size = imax\<rparr>"

definition IsEmpty :: "('k, 'v) BPlusTree \<Rightarrow> bool" where
  "IsEmpty t \<longleftrightarrow> root_page_id t = INVALID_PAGE_ID"

text \<open>The template parameter \<^verbatim>\<open>N\<close> of \<^verbatim>\<open>Split\<close>, \<^verbatim>\<open>Coalesce\<close> and their callers.\<close>

datatype node_type = LeafNode | InternalNode

definition UpdateRootPageId :: "bool \<Rightarrow> ('k, 'v) BPlusTree \<Rightarrow> error + ('k, 'v) BPlusTree" where
  "UpdateRootPageId insert_record t =
     ebind (FetchPage_deref HEADER_PAGE_ID (buffer_pool_manager t))
       (\<lambda>(header_page, s1).
          let hr = (if insert_record
                    then (case header_record t of None \<Rightarrow> Some (root_page_id t) | Some r \<Rightarrow> Some r)
                    else (case header_record t of None \<Rightarrow> None | Some r \<Rightarrow> Some (root_page_id t)))
          in ebind (UnpinPage HEADER_PAGE_ID True s1)
               (\<lambda>(ok, s2). Inr (t\<lparr>buffer_pool_manager := s2, header_record := hr\<rparr>)))"

text \<open>
  \<^verbatim>\<open>FreePagesInTransaction\<close>.  Without a transaction the page \<open>curPageId\<close> is unpinned;
  with one, every page of the page set is unpinned in the order of the set, and deleted
  when it is in the deleted set.
\<close>

definition FreePagesInTransaction ::
  "bool \<Rightarrow> Transaction option \<Rightarrow> page_id_t \<Rightarrow> ('k::zero, 'v::zero) BPlusTree \<Rightarrow>
     error + (('k, 'v) BPlusTree \<times> Transaction option)" where
  "FreePagesInTransaction exclusive transaction curPageId t =
     (case transaction of
        None \<Rightarrow>
          ebind (UnpinPage curPageId False (buffer_pool_manager t))
            (\<lambda>(ok, s1). Inr (t\<lparr>buffer_pool_manager := s1\<rparr>, None))
      | Some tx \<Rightarrow>
          ebind
            (efold
               (\<lambda>page (s0, del).
                  let currentPageId = frame_page_id (pages s0 page) in
                  ebind (UnpinPage currentPageId exclusive s0)
                    (\<lambda>(ok, s1).
                       if currentPageId \<in> del
                       then Inr (snd (DeletePage currentPageId s1), del - {currentPageId})
                       else Inr (s1, del)))
               (page_set tx) (buffer_pool_manager t, deleted_page_set tx))
            (\<lambda>(s2, del).
               if del \<noteq> {} then Inl AssertionFailure
               else Inr (t\<lparr>buffer_pool_manager := s2\<rparr>,
                         Some (tx\<lparr>page_set := [], deleted_page_set := del\<rparr>))))"

definition CrabingProtocalFetchPage ::
  "page_id_t \<Rightarrow> OperationType \<Rightarrow> page_id_t \<Rightarrow> Transaction option \<Rightarrow>
     ('k::zero, 'v::zero) BPlusTree \<Rightarrow> error + (nat \<times> ('k, 'v) BPlusTree \<times> Transaction option)" where
  "CrabingProtocalFetchPage pid op previous transaction t =
     (let exclusive = (op \<noteq> READ) in
      ebind (FetchPage_deref pid (buffer_pool_manager t))
        (\<lambda>(page, s1).
           let t1 = t\<lparr>buffer_pool_manager := s1\<rparr>;
               treePage = page_at s1 page
           in ebind
                (if previous > 0 \<and> (\<not> exclusive \<or> IsSafeOperation treePage op)
                 then FreePagesInTransaction exclusive transaction previous t1
                 else Inr (t1, transaction))
                (\<lambda>(t2, transaction2).
                   Inr (page, t2, map_option (AddIntoPageSet page) transaction2))))"

text \<open>
  \<^verbatim>\<open>FindLeafPage\<close>.  Its loop walks from the root to a leaf; \<open>fuel\<close> bounds the number of
  pages it may visit.
\<close>

fun FindLeafPage_loop ::
  "nat \<Rightarrow> 'k \<Rightarrow> bool \<Rightarrow> OperationType \<Rightarrow> page_id_t \<Rightarrow> nat \<Rightarrow>
     ('k::{linorder,zero}, 'v::zero) BPlusTree \<Rightarrow> Transaction option \<Rightarrow>
     error + (nat \<times> ('k, 'v) BPlusTree \<times> Transaction option)" where
  "FindLeafPage_loop 0 key leftMost op curPageId pagePointer t transaction = Inl OutOfFuel"
| "FindLeafPage_loop (Suc n) key leftMost op curPageId pagePointer t transaction =
     (let p = page_at (buffer_pool_manager t) pagePointer in
      if IsLeafPage p then Inr (pagePointer, t, transaction)
      else ebind (if leftMost then Internal_ValueAt p 0 else Internal_Lookup key p)
             (\<lambda>nextPageId.
                ebind (CrabingProtocalFetchPage nextPageId op curPageId transaction t)
                  (\<lambda>(pagePointer1, t1, transaction1).
                     FindLeafPage_loop n key leftMost op nextPageId pagePointer1 t1 transaction1)))"

definition FindLeafPage ::
  "nat \<Rightarrow> 'k \<Rightarrow> bool \<Rightarrow> OperationType \<Rightarrow> Transaction option \<Rightarrow>
     ('k::{linorder,zero}, 'v::zero) BPlusTree \<Rightarrow>
     error + (nat option \<times> ('k, 'v) BPlusTree \<times> Transaction option)" where
  "FindLeafPage fuel key leftMost op transaction t =
     (if IsEmpty t then Inr (None, t, transaction)
      else ebind (CrabingProtocalFetchPage (root_page_id t) op (- 1) transaction t)
             (\<lambda>(pagePointer, t1, transaction1).
                ebind (FindLeafPage_loop fuel key leftMost op (root_page_id t) pagePointer t1
                         transaction1)
                  (\<lambda>(leaf, t2, transaction2). Inr (Some leaf, t2, transaction2))))"

text \<open>
  \<^verbatim>\<open>GetValue\<close>: \<^verbatim>\<open>result.resize(1)\<close> keeps the first element of the vector or adds a value
  that is zero, and \<^verbatim>\<open>Lookup\<close> writes the value found into it.
\<close>

definition GetValue ::
  "nat \<Rightarrow> 'k \<Rightarrow> 'v list \<Rightarrow> Transaction option \<Rightarrow> ('k::{linorder,zero}, 'v::zero) BPlusTree \<Rightarrow>
     error + (bool \<times> 'v list \<times> ('k, 'v) BPlusTree \<times> Transaction option)" where
  "GetValue fuel key result transaction t =
     ebind (FindLeafPage fuel key False READ transaction t)
       (\<lambda>(leafPage, t1, transaction1).
          case leafPage of
            None \<Rightarrow> Inr (False, result, t1, transaction1)
          | Some leaf \<Rightarrow>
              let p = page_at (buffer_pool_manager t1) leaf;
                  result1 = (if result = [] then [0] else [hd result]);
                  (res, result2) = (case Leaf_Lookup key p of
                                      Some v \<Rightarrow> (True, [v])
                                    | None \<Rightarrow> (False, result1));
                  pageId = page_id p
              in ebind (FreePagesInTransaction False transaction1 pageId t1)
                   (\<lambda>(t2, transaction2). Inr (res, result2, t2, transaction2)))"

definition StartNewTree ::
  "'k \<Rightarrow> 'v \<Rightarrow> ('k::{linorder,zero}, 'v::zero) BPlusTree \<Rightarrow> error + (bool \<times> ('k, 'v) BPlusTree)" where
  "StartNewTree key val t =
     ebind (NewPage (buffer_pool_manager t))
       (\<lambda>(r, s1). case r of
            None \<Rightarrow> Inr (False, t\<lparr>buffer_pool_manager := s1\<rparr>)
          | Some (rootPage, rootPageId) \<Rightarrow>
              let s2 = set_page rootPage
                         (Leaf_Init rootPageId INVALID_PAGE_ID (leaf_max_size t) (page_at s1 rootPage))
                         s1;
                  t1 = t\<lparr>buffer_pool_manager := s2, root_page_id := rootPageId\<rparr>
              in
       ebind (UpdateRootPageId True t1)
         (\<lambda>t2.
       ebind (Leaf_Insert key val (page_at (buffer_pool_manager t2) rootPage))
         (\<lambda>(n, p1). let s3 = set_page rootPage p1 (buffer_pool_manager t2) in
       ebind (UnpinPage rootPageId True s3)
         (\<lambda>(ok, s4). Inr (True, t2\<lparr>buffer_pool_manager := s4\<rparr>)))))"

text \<open>
  \<^verbatim>\<open>Split\<close>: a new page is taken from the pool, initialised for the kind of node, and
  receives the upper half.
\<close>

definition Split ::
  "node_type \<Rightarrow> nat \<Rightarrow> Transaction option \<Rightarrow> ('k::zero, 'v::zero) BPlusTree \<Rightarrow>
     error + (nat \<times> ('k, 'v) BPlusTree \<times> Transaction option)" where
  "Split N pagePointer transaction t =
     (case transaction of
        None \<Rightarrow> Inl AssertionFailure
      | Some tx \<Rightarrow>
          ebind (NewPage (buffer_pool_manager t))
            (\<lambda>(r, s1). case r of
                 None \<Rightarrow> Inl AssertionFailure
               | Some (newPage, newPageId) \<Rightarrow>
                   let tx1 = AddIntoPageSet newPage tx;
                       parent_id = parent_page_id (page_at s1 pagePointer);
                       s2 = set_page newPage
                              (case N of
                                 LeafNode \<Rightarrow>
                                   Leaf_Init newPageId parent_id (leaf_max_size t) (page_at s1 newPage)
                               | InternalNode \<Rightarrow>
                                   Internal_Init newPageId parent_id (internal_max_size t)
                                     (page_at s1 newPage))
                              s1
                   in ebind (case N of
                               LeafNode \<Rightarrow> Inr (Leaf_MoveHalfTo pagePointer newPage s2)
                             | InternalNode \<Rightarrow> Internal_MoveHalfTo pagePointer newPage s2)
                        (\<lambda>s3. Inr (newPage, t\<lparr>buffer_pool_manager := s3\<rparr>, Some tx1))))"

text \<open>
  \<^verbatim>\<open>InsertIntoParent\<close> calls itself when the parent splits too; \<open>fuel\<close> bounds the depth
  of these calls.
\<close>

fun InsertIntoParent ::
  "nat \<Rightarrow> nat \<Rightarrow> 'k \<Rightarrow> nat \<Rightarrow> Transaction option \<Rightarrow> ('k::zero, 'v::zero) BPlusTree \<Rightarrow>
     error + (('k, 'v) BPlusTree \<times> Transaction option)" where
  "InsertIntoParent 0 old_node key new_node transaction t = Inl OutOfFuel"
| "InsertIntoParent (Suc n) old_node key new_node transaction t =
     (if transaction = None then Inl AssertionFailure
      else if IsRootPage (page_at (buffer_pool_manager t) old_node) then
        ebind (NewPage (buffer_pool_manager t))
          (\<lambda>(r, s1). case r of
               None \<Rightarrow> Inl AssertionFailure
             | Some (newPage, newRootId) \<Rightarrow>
                 if pin_count (pages s1 newPage) \<noteq> 1 then Inl AssertionFailure
                 else
                   let s2 = set_page newPage
                              (Internal_Init newRootId INVALID_PAGE_ID (internal_max_size t)
                                 (page_at s1 newPage)) s1;
                       s3 = set_page newPage
                              (Internal_PopulateNewRoot (page_id (page_at s2 old_node)) key
                                 (page_id (page_at s2 new_node)) (page_at s2 newPage)) s2;
                       s4 = set_page old_node
                              ((page_at s3 old_node)\<lparr>parent_page_id := newRootId\<rparr>) s3;
                       s5 = set_page new_node
                              ((page_at s4 new_node)\<lparr>parent_page_id := newRootId\<rparr>) s4
                   in
          ebind (UpdateRootPageId False (t\<lparr>buffer_pool_manager := s5, root_page_id := newRootId\<rparr>))
            (\<lambda>t1.
          ebind (UnpinPage (page_id (page_at (buffer_pool_manager t1) newPage)) True
                   (buffer_pool_manager t1))
            (\<lambda>(ok, s6). Inr (t1\<lparr>buffer_pool_manager := s6\<rparr>, transaction))))
      else
        let parentId = parent_page_id (page_at (buffer_pool_manager t) old_node) in
        ebind (FetchPage_deref parentId (buffer_pool_manager t))
          (\<lambda>(parent, s1).
             let s2 = set_page new_node ((page_at s1 new_node)\<lparr>parent_page_id := parentId\<rparr>) s1 in
        ebind (Internal_InsertNodeAfter (page_id (page_at s2 old_node)) key
                 (page_id (page_at s2 new_node)) (page_at s2 parent))
          (\<lambda>(newSize, par1).
             let s3 = set_page parent par1 s2;
                 t1 = t\<lparr>buffer_pool_manager := s3\<rparr>
             in
        ebind (if GetSize (page_at s3 parent) > GetMaxSize (page_at s3 parent)
               then ebind (Split InternalNode parent transaction t1)
                      (\<lambda>(newLeafPage, t2, transaction2).
                         ebind (Internal_KeyAt (page_at (buffer_pool_manager t2) newLeafPage) 0)
                           (\<lambda>firstKey.
                              InsertIntoParent n parent firstKey newLeafPage transaction2 t2))
               else Inr (t1, transaction))
          (\<lambda>(t3, transaction3).
        ebind (UnpinPage parentId True (buffer_pool_manager t3))
          (\<lambda>(ok, s4). Inr (t3\<lparr>buffer_pool_manager := s4\<rparr>, transaction3))))))"

definition InsertIntoLeaf ::
  "nat \<Rightarrow> 'k \<Rightarrow> 'v \<Rightarrow> Transaction option \<Rightarrow> ('k::{linorder,zero}, 'v::zero) BPlusTree \<Rightarrow>
     error + (bool \<times> ('k, 'v) BPlusTree \<times> Transaction option)" where
  "InsertIntoLeaf fuel key val transaction t =
     ebind (FindLeafPage fuel key False INSERT transaction t)
       (\<lambda>(leafPage, t1, transaction1).
          case leafPage of
            None \<Rightarrow> Inl NullPointer
          | Some leaf \<Rightarrow>
              (case Leaf_Lookup key (page_at (buffer_pool_manager t1) leaf) of
                 Some v \<Rightarrow>
                   ebind (FreePagesInTransaction True transaction1 (- 1) t1)
                     (\<lambda>(t2, transaction2). Inr (False, t2, transaction2))
               | None \<Rightarrow>
                   ebind (Leaf_Insert key val (page_at (buffer_pool_manager t1) leaf))
                     (\<lambda>(n, p1).
                        let s2 = set_page leaf p1 (buffer_pool_manager t1);
                            t2 = t1\<lparr>buffer_pool_manager := s2\<rparr>;
                            pageSize = GetSize (page_at s2 leaf);
                            pageMaxSize = GetMaxSize (page_at s2 leaf)
                        in
                   ebind (if pageSize > pageMaxSize
                          then ebind (Split LeafNode leaf transaction1 t2)
                                 (\<lambda>(newLeafPage, t3, transaction3).
                                    ebind (Leaf_KeyAt (page_at (buffer_pool_manager t3) newLeafPage) 0)
                                      (\<lambda>firstKey.
                                         InsertIntoParent fuel leaf firstKey newLeafPage
                                           transaction3 t3))
                          else Inr (t2, transaction1))
                     (\<lambda>(t4, transaction4).
                   ebind (FreePagesInTransaction True transaction4 (- 1) t4)
                     (\<lambda>(t5, transaction5). Inr (True, t5, transaction5))))))"

text \<open>\<^verbatim>\<open>Insert\<close> does not look at what \<^verbatim>\<open>StartNewTree\<close> returns.\<close>

definition Insert ::
  "nat \<Rightarrow> 'k \<Rightarrow> 'v \<Rightarrow> Transaction option \<Rightarrow> ('k::{linorder,zero}, 'v::zero) BPlusTree \<Rightarrow>
     error + (bool \<times> ('k, 'v) BPlusTree \<times> Transaction option)" where
  "Insert fuel key val transaction t =
     (if IsEmpty t
      then ebind (StartNewTree key val t) (\<lambda>(started, t1). Inr (True, t1, transaction))
      else InsertIntoLeaf fuel key val transaction t)"

text \<open>
  \<^verbatim>\<open>FindLeftSibling\<close> returns the sibling in its reference parameter, and whether the
  sibling is the right one.
\<close>

definition FindLeftSibling ::
  "nat \<Rightarrow> Transaction option \<Rightarrow> ('k::zero, 'v::zero) BPlusTree \<Rightarrow>
     error + (nat \<times> bool \<times> ('k, 'v) BPlusTree \<times> Transaction option)" where
  "FindLeftSibling node transaction t =
     ebind (FetchPage_deref (parent_page_id (page_at (buffer_pool_manager t) node))
              (buffer_pool_manager t))
       (\<lambda>(parentPage, s1).
          let idx = Internal_ValueIndex (page_at s1 parentPage) (page_id (page_at s1 node));
              siblingIndex = (if idx = 0 then idx + 1 else idx - 1)
          in
     ebind (Internal_ValueAt (page_at s1 parentPage) siblingIndex)
       (\<lambda>siblingId.
     ebind (CrabingProtocalFetchPage siblingId DELETE (- 1) transaction
              (t\<lparr>buffer_pool_manager := s1\<rparr>))
       (\<lambda>(sibling, t2, transaction2).
     ebind (UnpinPage (page_id (page_at (buffer_pool_manager t2) parentPage)) False
              (buffer_pool_manager t2))
       (\<lambda>(ok, s3). Inr (sibling, idx = 0, t2\<lparr>buffer_pool_manager := s3\<rparr>, transaction2)))))"

definition Redistribute ::
  "node_type \<Rightarrow> nat \<Rightarrow> nat \<Rightarrow> int \<Rightarrow> ('k, 'v) BufferPoolManager \<Rightarrow>
     error + ('k, 'v) BufferPoolManager" where
  "Redistribute N neighbor_node node index s =
     (if index = 0
      then (case N of
              LeafNode \<Rightarrow> Leaf_MoveFirstToEndOf neighbor_node node s
            | InternalNode \<Rightarrow> Internal_MoveFirstToEndOf neighbor_node node s)
      else (case N of
              LeafNode \<Rightarrow> Leaf_MoveLastToFrontOf neighbor_node node index s
            | InternalNode \<Rightarrow> Internal_MoveLastToFrontOf neighbor_node node index s))"

definition AdjustRoot :: "nat \<Rightarrow> ('k, 'v) BPlusTree \<Rightarrow> error + (bool \<times> ('k, 'v) BPlusTree)" where
  "AdjustRoot old_root_node t =
     (let p = page_at (buffer_pool_manager t) old_root_node in
      if IsLeafPage p then
        if parent_page_id p \<noteq> INVALID_PAGE_ID then Inl AssertionFailure
        else if GetSize p \<noteq> 0 then Inl AssertionFailure
        else ebind (UpdateRootPageId False (t\<lparr>root_page_id := INVALID_PAGE_ID\<rparr>))
               (\<lambda>t1. Inr (True, t1))
      else if GetSize p = 1 then
        ebind (Internal_RemoveAndReturnOnlyChild p)
          (\<lambda>(newRootId, p1).
             let s1 = set_page old_root_node p1 (buffer_pool_manager t) in
        ebind (UpdateRootPageId False (t\<lparr>buffer_pool_manager := s1, root_page_id := newRootId\<rparr>))
          (\<lambda>t1.
        ebind (FetchPage newRootId (buffer_pool_manager t1))
          (\<lambda>(po, s2). case po of
               None \<Rightarrow> Inl AssertionFailure
             | Some newRootPage \<Rightarrow>
                 let s3 = set_page newRootPage
                            ((page_at s2 newRootPage)\<lparr>parent_page_id := INVALID_PAGE_ID\<rparr>) s2
                 in
        ebind (UnpinPage newRootId True s3)
          (\<lambda>(ok, s4). Inr (True, t1\<lparr>buffer_pool_manager := s4\<rparr>)))))
      else Inr (False, t))"

text \<open>
  \<^verbatim>\<open>CoalesceOrRedistribute\<close> and \<^verbatim>\<open>Coalesce\<close> call each other while the parents underflow;
  \<open>fuel\<close> bounds the depth of these calls.  \<^verbatim>\<open>CoalesceOrRedistribute\<close> uses the transaction
  without a check when the root is to be deleted, and does not look at what \<^verbatim>\<open>Coalesce\<close>
  returns.
\<close>

function (sequential) CoalesceOrRedistribute ::
  "node_type \<Rightarrow> nat \<Rightarrow> nat \<Rightarrow> Transaction option \<Rightarrow> ('k::zero, 'v::zero) BPlusTree \<Rightarrow>
     error + (bool \<times> ('k, 'v) BPlusTree \<times> Transaction option)"
and Coalesce ::
  "node_type \<Rightarrow> nat \<Rightarrow> nat \<Rightarrow> nat \<Rightarrow> nat \<Rightarrow> int \<Rightarrow> Transaction option \<Rightarrow>
     ('k::zero, 'v::zero) BPlusTree \<Rightarrow> error + (bool \<times> ('k, 'v) BPlusTree \<times> Transaction option)"
where
  "CoalesceOrRedistribute N 0 node transaction t = Inl OutOfFuel"
| "CoalesceOrRedistribute N (Suc n) node transaction t =
     (if IsRootPage (page_at (buffer_pool_manager t) node) then
        ebind (AdjustRoot node t)
          (\<lambda>(OldRootNeedDelete, t1).
             if OldRootNeedDelete then
               (case transaction of
                  None \<Rightarrow> Inl NullPointer
                | Some tx \<Rightarrow>
                    Inr (True, t1,
                         Some (AddIntoDeletedPageSet
                                 (page_id (page_at (buffer_pool_manager t1) node)) tx)))
             else Inr (False, t1, transaction))
      else
        ebind (FindLeftSibling node transaction t)
          (\<lambda>(nearNode, isRightNode, t1, transaction1).
        ebind (FetchPage_deref (parent_page_id (page_at (buffer_pool_manager t1) node))
                 (buffer_pool_manager t1))
          (\<lambda>(parentPage, s2).
             let nodeSize = GetSize (page_at s2 node);
                 nearNodeSize = GetSize (page_at s2 nearNode);
                 nodeMaxSize = GetMaxSize (page_at s2 node);
                 t2 = t1\<lparr>buffer_pool_manager := s2\<rparr>
             in
             if nodeSize + nearNodeSize \<le> nodeMaxSize then
               let (node1, nearNode1) = (if isRightNode then (nearNode, node) else (node, nearNode));
                   removeIndex = Internal_ValueIndex (page_at s2 parentPage)
                                   (page_id (page_at s2 node1))
               in
               ebind (Coalesce N n nearNode1 node1 parentPage removeIndex transaction1 t2)
                 (\<lambda>(r, t3, transaction3).
               ebind (UnpinPage (page_id (page_at (buffer_pool_manager t3) parentPage)) True
                        (buffer_pool_manager t3))
                 (\<lambda>(ok, s4). Inr (True, t3\<lparr>buffer_pool_manager := s4\<rparr>, transaction3)))
             else
               let nodeInParentIndex = Internal_ValueIndex (page_at s2 parentPage)
                                         (page_id (page_at s2 node))
               in
               ebind (Redistribute N nearNode node nodeInParentIndex s2)
                 (\<lambda>s3.
               ebind (UnpinPage (page_id (page_at s3 parentPage)) False s3)
                 (\<lambda>(ok, s4). Inr (False, t2\<lparr>buffer_pool_manager := s4\<rparr>, transaction1))))))"
| "Coalesce N n neighbor_node node parent index transaction t =
     (case transaction of
        None \<Rightarrow> Inl AssertionFailure
      | Some tx \<Rightarrow>
          ebind (case N of
                   LeafNode \<Rightarrow> Inr (Leaf_MoveAllTo node neighbor_node (buffer_pool_manager t))
                 | InternalNode \<Rightarrow>
                     Internal_MoveAllTo node neighbor_node index (buffer_pool_manager t))
            (\<lambda>s1.
               let tx1 = AddIntoDeletedPageSet (page_id (page_at s1 node)) tx in
          ebind (Internal_Remove index (page_at s1 parent))
            (\<lambda>par1.
               let s2 = set_page parent par1 s1;
                   t2 = t\<lparr>buffer_pool_manager := s2\<rparr>
               in if GetSize (page_at s2 parent) \<le> GetMinSize (page_at s2 parent)
                  then CoalesceOrRedistribute InternalNode n parent (Some tx1) t2
                  else Inr (False, t2, Some tx1))))"
  by pat_completeness auto
termination
  by (relation "measure (\<lambda>x. case x of
                   Inl (N, n, node, transaction, t) \<Rightarrow> 2 * n
                 | Inr (N, n, neighbor_node, node, parent, index, transaction, t) \<Rightarrow> 2 * n + 1)")
     auto

definition Remove ::
  "nat \<Rightarrow> 'k \<Rightarrow> Transaction option \<Rightarrow> ('k::{linorder,zero}, 'v::zero) BPlusTree \<Rightarrow>
     error + (('k, 'v) BPlusTree \<times> Transaction option)" where
  "Remove fuel key transaction t =
     (if IsEmpty t then Inr (t, transaction)
      else
        ebind (FindLeafPage fuel key False DELETE transaction t)
          (\<lambda>(leafPage, t1, transaction1).
             case leafPage of
               None \<Rightarrow> Inl NullPointer
             | Some pageToDeleteItem \<Rightarrow>
        ebind (Leaf_RemoveAndDeleteRecord key (page_at (buffer_pool_manager t1) pageToDeleteItem))
          (\<lambda>(pageSize, p1).
             let s2 = set_page pageToDeleteItem p1 (buffer_pool_manager t1);
                 t2 = t1\<lparr>buffer_pool_manager := s2\<rparr>;
                 minPageSize = GetMinSize (page_at s2 pageToDeleteItem)
             in
        ebind (if pageSize < minPageSize
               then ebind (CoalesceOrRedistribute LeafNode fuel pageToDeleteItem transaction1 t2)
                      (\<lambda>(r, t3, transaction3). Inr (t3, transaction3))
               else Inr (t2, transaction1))
          (\<lambda>(t4, transaction4). FreePagesInTransaction True transaction4 (- 1) t4))))"

section \<open>Examples of trees\<close>

text \<open>
  A disk whose first new page id is 0, and the pool of \<open>n\<close> frames in which the header
  page has been created with \<^verbatim>\<open>NewPage\<close> and stays pinned, as the callers of the index
  set it up.  \<open>example_tree\<close> is the empty index on that pool.
\<close>

definition fresh_disk :: "(int, int) DiskManager" where
  "fresh_disk = \<lparr>disk_image = (\<lambda>pid. zero_page), next_id = 0, io_log = []\<rparr>"

definition header_pool :: "nat \<Rightarrow> (int, int) BufferPoolManager" where
  "header_pool n = snd (projr (NewPage (BufferPoolManager_new n fresh_disk)))"

definition example_tree :: "nat \<Rightarrow> int \<Rightarrow> int \<Rightarrow> (int, int) BPlusTree" where
  "example_tree n lmax imax = BPlusTree_new (header_pool n) lmax imax"

section \<open>Properties of the page header\<close>

lemma GetMinSize_spec:
  "0 \<le> max_size p \<Longrightarrow> GetMinSize p = spec_min_size p"
  by (simp add: GetMinSize_def spec_min_size_def IsRootPage_def IsLeafPage_def
      signed_divide_int_def sgn_if)

text \<open>
  Claim C4.  For every tree page (its capacity \<open>max_size\<close> is not negative):
  \<open>IsSafeOperation(READ)\<close> is true; \<open>IsSafeOperation(INSERT)\<close> is true iff
  \<open>size < max_size\<close>; \<open>IsSafeOperation(DELETE)\<close> is true iff \<open>size \<ge> min_size + 1\<close> on a
  leaf page and iff \<open>size > min_size + 1\<close> on an internal page, where \<open>min_size\<close> is
  \<open>\<lfloor>max_size / 2\<rfloor>\<close> for a non-root page, 1 for a root leaf and 2 for a root internal page.
\<close>

theorem IsSafeOperation_correct:
  fixes p :: "('k, 'v) BPlusTreePage"
  assumes "0 \<le> max_size p"
  shows "IsSafeOperation p READ \<and>
         (IsSafeOperation p INSERT \<longleftrightarrow> GetSize p < max_size p) \<and>
         (IsSafeOperation p DELETE \<longleftrightarrow>
            (if page_type p = LEAF_PAGE then GetSize p \<ge> spec_min_size p + 1
             else GetSize p > spec_min_size p + 1))"
  using assms
  by (simp add: IsSafeOperation_def GetMaxSize_def GetMinSize_spec IsLeafPage_def)

text \<open>
  The theorem at a non-root leaf of capacity 5 that holds three entries: reading and
  inserting are safe, and so is deleting, since \<open>3 \<ge> \<lfloor>5 / 2\<rfloor> + 1\<close>.
\<close>

theorem IsSafeOperation_correct_witness:
  "(0::int) \<le> 5 \<and>
   (let p = \<lparr>page_type = LEAF_PAGE, psize = 3, max_size = 5, parent_page_id = 7,
              page_id = 8, next_page_id = - 1,
              leaf_array = (\<lambda>i. (i, 10 * i)), internal_array = (\<lambda>i. (0::int, 0))\<rparr>
    in IsSafeOperation p READ \<and> IsSafeOperation p INSERT \<and> IsSafeOperation p DELETE
       \<and> spec_min_size p = 2 \<and> GetSize p = 3)"
  using IsSafeOperation_correct
    [of "\<lparr>page_type = LEAF_PAGE, psize = 3, max_size = 5, parent_page_id = 7,
              page_id = 8, next_page_id = - 1,
              leaf_array = (\<lambda>i. (i, 10 * i)), internal_array = (\<lambda>i. (0::int, 0))\<rparr>"]
  by (simp add: spec_min_size_def INVALID_PAGE_ID_def GetSize_def IsLeafPage_def)

section \<open>Properties of the LRU replacer\<close>

lemma lru_run_snoc: "lru_run (ops @ [x]) = lru_step (lru_run ops) x"
  by (simp add: lru_run_def)

lemma stamp_rev_less: "stamp_rev h v = Some t \<Longrightarrow> t < length h"
  by (induction h v rule: stamp_rev.induct) (auto split: if_splits)

lemma last_insert_less: "last_insert ops v = Some t \<Longrightarrow> t < length ops"
  using stamp_rev_less [of "rev ops" v t] by (simp add: last_insert_def)

lemma last_insert_snoc_Insert:
  "last_insert (ops @ [OpInsert w]) v = (if w = v then Some (length ops) else last_insert ops v)"
  by (simp add: last_insert_def)

lemma last_insert_snoc_Erase:
  "last_insert (ops @ [OpErase w]) v = (if w = v then None else last_insert ops v)"
  by (simp add: last_insert_def)

lemma sorted_wrt_remove1: "sorted_wrt P xs \<Longrightarrow> sorted_wrt P (remove1 x xs)"
proof (induction xs)
  case Nil
  then show ?case by simp
next
  case (Cons a xs)
  then show ?case using set_remove1_subset [of x xs] by auto
qed

lemma lru_ok_Insert:
  assumes "lru_ok ops r"
  shows "lru_ok (ops @ [OpInsert w]) (LRUReplacer_Insert w r)"
proof -
  from assms have d: "distinct (chain r)" and h: "hashmap r = set (chain r)"
    and m: "set (chain r) = {v. last_insert ops v \<noteq> None}"
    and s: "sorted_wrt (\<lambda>a b. the (last_insert ops a) > the (last_insert ops b)) (chain r)"
    by (simp_all add: lru_ok_def)
  have c: "chain (LRUReplacer_Insert w r) = w # remove1 w (chain r)"
    by (simp add: LRUReplacer_Insert_def h remove1_idem)
  have hm: "hashmap (LRUReplacer_Insert w r) = insert w (set (chain r))"
    by (simp add: LRUReplacer_Insert_def h)
  have sr: "set (remove1 w (chain r)) = set (chain r) - {w}"
    using d by simp
  have old: "the (last_insert ops a) < length ops" if "a \<in> set (chain r)" for a
    using that m last_insert_less [of ops a] by auto
  have s1: "sorted_wrt (\<lambda>a b. the (last_insert ops a) > the (last_insert ops b))
              (remove1 w (chain r))"
    using s by (rule sorted_wrt_remove1)
  have s2: "sorted_wrt (\<lambda>a b. the (last_insert (ops @ [OpInsert w]) a)
                              > the (last_insert (ops @ [OpInsert w]) b))
              (remove1 w (chain r))"
    by (rule sorted_wrt_mono_rel [OF _ s1]) (auto simp add: sr last_insert_snoc_Insert)
  show ?thesis
    unfolding lru_ok_def c hm
    using d s2 old m
    by (auto simp: sr last_insert_snoc_Insert)
qed

lemma lru_ok_Erase:
  assumes "lru_ok ops r"
  shows "lru_ok (ops @ [OpErase w]) (snd (LRUReplacer_Erase w r))"
proof -
  from assms have d: "distinct (chain r)" and h: "hashmap r = set (chain r)"
    and m: "set (chain r) = {v. last_insert ops v \<noteq> None}"
    and s: "sorted_wrt (\<lambda>a b. the (last_insert ops a) > the (last_insert ops b)) (chain r)"
    by (simp_all add: lru_ok_def)
  have c: "chain (snd (LRUReplacer_Erase w r)) = remove1 w (chain r)"
    by (simp add: LRUReplacer_Erase_def h remove1_idem)
  have hm: "hashmap (snd (LRUReplacer_Erase w r)) = set (chain r) - {w}"
    by (auto simp add: LRUReplacer_Erase_def h)
  have sr: "set (remove1 w (chain r)) = set (chain r) - {w}"
    using d by simp
  have s1: "sorted_wrt (\<lambda>a b. the (last_insert ops a) > the (last_insert ops b))
              (remove1 w (chain r))"
    using s by (rule sorted_wrt_remove1)
  have s2: "sorted_wrt (\<lambda>a b. the (last_insert (ops @ [OpErase w]) a)
                              > the (last_insert (ops @ [OpErase w]) b))
              (remove1 w (chain r))"
    by (rule sorted_wrt_mono_rel [OF _ s1]) (auto simp add: sr last_insert_snoc_Erase)
  show ?thesis
    unfolding lru_ok_def c hm
    using d s2 m
    by (auto simp: sr last_insert_snoc_Erase)
qed

lemma lru_ok_run: "lru_ok ops (lru_run ops)"
proof (induction ops rule: rev_induct)
  case Nil
  then show ?case
    by (simp add: lru_ok_def lru_run_def LRUReplacer_new_def last_insert_def)
next
  case (snoc x xs)
  then show ?case
    by (cases x) (simp_all add: lru_run_snoc lru_ok_Insert lru_ok_Erase)
qed

lemma sorted_wrt_last:
  "sorted_wrt P xs \<Longrightarrow> xs \<noteq> [] \<Longrightarrow> y \<in> set xs \<Longrightarrow> y \<noteq> last xs \<Longrightarrow> P y (last xs)"
  by (induction xs) (auto split: if_splits)


text \<open>
  Claim C9.  After every sequence of \<^verbatim>\<open>Insert\<close> and \<^verbatim>\<open>Erase\<close> calls on a new replacer:
  \<^verbatim>\<open>Insert(v)\<close> puts \<open>v\<close> at the head of the list and keeps the order of the others; it
  adds \<open>v\<close> to the members and changes neither the members nor their number when \<open>v\<close> is
  one already.  \<^verbatim>\<open>Victim\<close> removes and returns the value at the tail, which is a member
  whose most recent \<^verbatim>\<open>Insert\<close> is older than that of every other member; it returns
  nothing exactly when the replacer is empty, and then changes nothing.
\<close>

theorem LRUReplacer_order:
  "(let r = lru_run ops in
     chain (LRUReplacer_Insert v r) = v # remove1 v (chain r) \<and>
     hashmap (LRUReplacer_Insert v r) = insert v (hashmap r) \<and>
     (v \<in> hashmap r \<longrightarrow>
        hashmap (LRUReplacer_Insert v r) = hashmap r \<and>
        LRUReplacer_Size (LRUReplacer_Insert v r) = LRUReplacer_Size r) \<and>
     hashmap r = set (chain r) \<and> distinct (chain r) \<and>
     hashmap r = {x. last_insert ops x \<noteq> None} \<and>
     (case LRUReplacer_Victim r of
        (None, r') \<Rightarrow> hashmap r = {} \<and> r' = r
      | (Some x, r') \<Rightarrow>
          x = last (chain r) \<and> x \<in> hashmap r \<and>
          chain r' = butlast (chain r) \<and> hashmap r' = hashmap r - {x} \<and>
          (\<forall>y \<in> hashmap r. y \<noteq> x \<longrightarrow>
             the (last_insert ops x) < the (last_insert ops y))) \<and>
     (fst (LRUReplacer_Victim r) = None \<longleftrightarrow> LRUReplacer_Size r = 0))"
proof -
  define r where "r = lru_run ops"
  have ok: "lru_ok ops r"
    unfolding r_def by (rule lru_ok_run)
  then have d: "distinct (chain r)" and h: "hashmap r = set (chain r)"
    and m: "set (chain r) = {x. last_insert ops x \<noteq> None}"
    and s: "sorted_wrt (\<lambda>a b. the (last_insert ops a) > the (last_insert ops b)) (chain r)"
    by (simp_all add: lru_ok_def)
  have ins: "chain (LRUReplacer_Insert v r) = v # remove1 v (chain r)"
    by (simp add: LRUReplacer_Insert_def h remove1_idem)
  have insh: "hashmap (LRUReplacer_Insert v r) = insert v (hashmap r)"
    by (simp add: LRUReplacer_Insert_def)
  have keep: "v \<in> hashmap r \<Longrightarrow> hashmap (LRUReplacer_Insert v r) = hashmap r \<and>
        LRUReplacer_Size (LRUReplacer_Insert v r) = LRUReplacer_Size r"
    by (simp add: insh LRUReplacer_Size_def insert_absorb)
  have vic: "case LRUReplacer_Victim r of
        (None, r') \<Rightarrow> hashmap r = {} \<and> r' = r
      | (Some x, r') \<Rightarrow>
          x = last (chain r) \<and> x \<in> hashmap r \<and>
          chain r' = butlast (chain r) \<and> hashmap r' = hashmap r - {x} \<and>
          (\<forall>y \<in> hashmap r. y \<noteq> x \<longrightarrow>
             the (last_insert ops x) < the (last_insert ops y))"
  proof (cases "chain r = []")
    case True
    then show ?thesis by (simp add: LRUReplacer_Victim_def h)
  next
    case False
    then show ?thesis
      using sorted_wrt_last [OF s False]
      by (auto simp add: LRUReplacer_Victim_def h Let_def)
  qed
  have emp: "fst (LRUReplacer_Victim r) = None \<longleftrightarrow> LRUReplacer_Size r = 0"
    by (simp add: LRUReplacer_Victim_def LRUReplacer_Size_def h Let_def)
  show ?thesis
    unfolding Let_def r_def [symmetric]
    using ins insh keep d h m vic emp by simp
qed

text \<open>
  The theorem after the calls Insert 1, Insert 2, Insert 3, Insert 1, Erase 2: the list
  is 1, 3; inserting 3 again moves it to the head; the victim is 3, inserted before 1 was
  inserted for the last time.
\<close>

theorem LRUReplacer_order_witness:
  "(let ops = [OpInsert (1::nat), OpInsert 2, OpInsert 3, OpInsert 1, OpErase 2];
        r = lru_run ops
    in 3 \<in> hashmap r \<and> chain r = [1, 3] \<and>
       chain (LRUReplacer_Insert 3 r) = [3, 1] \<and>
       hashmap (LRUReplacer_Insert 3 r) = hashmap r \<and>
       fst (LRUReplacer_Victim r) = Some 3 \<and> chain (snd (LRUReplacer_Victim r)) = [1] \<and>
       1 \<in> hashmap r \<and> the (last_insert ops 3) < the (last_insert ops 1) \<and>
       LRUReplacer_Size r \<noteq> 0)"
proof -
  define ops where "ops = [OpInsert (1::nat), OpInsert 2, OpInsert 3, OpInsert 1, OpErase 2]"
  have c: "chain (lru_run ops) = [1, 3]" and hm: "hashmap (lru_run ops) = {1, 3}"
    by (auto simp add: ops_def lru_run_def LRUReplacer_new_def LRUReplacer_Insert_def
        LRUReplacer_Erase_def)
  have v: "LRUReplacer_Victim (lru_run ops) = (Some 3, \<lparr>chain = [1], hashmap = {1}\<rparr>)"
    by (auto simp add: LRUReplacer_Victim_def c hm)
  have s3: "last_insert ops 3 = Some 2" and s1: "last_insert ops 1 = Some 3"
    by (simp_all add: ops_def last_insert_def)
  from LRUReplacer_order [of ops 3]
  have a: "chain (LRUReplacer_Insert 3 (lru_run ops)) = 3 # remove1 3 (chain (lru_run ops))"
    and b: "3 \<in> hashmap (lru_run ops) \<longrightarrow>
              hashmap (LRUReplacer_Insert 3 (lru_run ops)) = hashmap (lru_run ops)"
    and e: "\<forall>y \<in> hashmap (lru_run ops). y \<noteq> 3 \<longrightarrow>
              the (last_insert ops 3) < the (last_insert ops y)"
    and f: "fst (LRUReplacer_Victim (lru_run ops)) = None \<longleftrightarrow> LRUReplacer_Size (lru_run ops) = 0"
    unfolding Let_def v by auto
  from e have e1: "the (last_insert ops 3) < the (last_insert ops 1)"
    by (simp add: hm)
  show ?thesis
    unfolding ops_def [symmetric] Let_def
    using a b e1 f by (simp add: c hm v)
qed

section \<open>Properties of the buffer pool manager\<close>

lemma GetVictimPage_None:
  "(\<exists>s'. GetVictimPage s = Inr (None, s')) \<longleftrightarrow>
     free_list s = [] \<and> LRUReplacer_Size (replacer s) = 0"
  by (auto simp add: GetVictimPage_def Let_def split: prod.splits option.splits)

lemma GetVictimPage_None_state:
  "GetVictimPage s = Inr (None, s') \<Longrightarrow> s' = s"
  by (auto simp add: GetVictimPage_def Let_def split: prod.splits option.splits if_splits)

lemma GetVictimPage_Some:
  assumes "GetVictimPage s = Inr (Some F, s1)"
  shows "pin_count (pages s F) = 0 \<and> pages s1 = pages s \<and> page_table s1 = page_table s \<and>
         disk_manager s1 = disk_manager s \<and>
         (if free_list s \<noteq> []
          then F = hd (free_list s) \<and> free_list s1 = tl (free_list s) \<and>
               replacer s1 = replacer s \<and> frame_page_id (pages s F) = INVALID_PAGE_ID
          else free_list s1 = [] \<and> LRUReplacer_Victim (replacer s) = (Some F, replacer s1))"
  using assms
  by (auto simp add: GetVictimPage_def Let_def split: prod.splits option.splits if_splits)

lemma GetVictimPage_returns:
  assumes "lists_ok s"
  shows "\<exists>r. GetVictimPage s = Inr r"
proof (cases "free_list s")
  case Nil
  show ?thesis
  proof (cases "chain (replacer s) = []")
    case True
    with assms Nil show ?thesis
      by (simp add: GetVictimPage_def lists_ok_def LRUReplacer_Size_def)
  next
    case False
    then have "last (chain (replacer s)) \<in> set (chain (replacer s))" by simp
    with assms have "pin_count (pages s (last (chain (replacer s)))) = 0"
      by (simp add: lists_ok_def list_all_iff)
    with False Nil show ?thesis
      by (simp add: GetVictimPage_def LRUReplacer_Victim_def Let_def)
  qed
next
  case (Cons f fs)
  with assms show ?thesis
    by (simp add: GetVictimPage_def lists_ok_def Let_def)
qed

lemma Page_update_all:
  "pg\<lparr>frame_data := d, pin_count := c, is_dirty := b, frame_page_id := i\<rparr> =
     \<lparr>frame_page_id = i, pin_count = c, is_dirty = b, frame_data = d\<rparr>"
  by (cases pg) simp

lemma FetchPage_miss:
  assumes "page_table s pid = None" and "GetVictimPage s = Inr (Some F, s1)"
  shows "FetchPage pid s = Inr (Some F,
     s1\<lparr>pages := (pages s1)(F := (pages s1 F)\<lparr>frame_data := disk_image
               (if is_dirty (pages s1 F)
                then DiskManager_WritePage (frame_page_id (pages s1 F)) (frame_data (pages s1 F)) (disk_manager s1)
                else disk_manager s1) pid, pin_count := 1, is_dirty := False, frame_page_id := pid\<rparr>),
        page_table := ((page_table s1)(frame_page_id (pages s1 F) := None))(pid \<mapsto> F),
        disk_manager := (if is_dirty (pages s1 F)
                then DiskManager_WritePage (frame_page_id (pages s1 F)) (frame_data (pages s1 F)) (disk_manager s1)
                else disk_manager s1)\<lparr>io_log := io_log (if is_dirty (pages s1 F)
                then DiskManager_WritePage (frame_page_id (pages s1 F)) (frame_data (pages s1 F)) (disk_manager s1)
                else disk_manager s1) @ [ReadPage pid]\<rparr>\<rparr>)"
  using assms by (simp add: FetchPage_def Let_def DiskManager_ReadPage_def)

text \<open>
  Claim C2.  \<^verbatim>\<open>FetchPage(page_id)\<close>.  When the page table maps the page to a frame \<open>F\<close>: the
  call returns \<open>F\<close>, adds one to its pin count, takes it out of the replacer, and leaves the
  disk, the page table and the free list alone.  When the page is absent and the call
  returns a frame \<open>F\<close>: \<open>F\<close> is the head of the free list if there is one, else the
  replacer's victim; the old contents of \<open>F\<close> are written to disk exactly when \<open>F\<close> is
  dirty, then the page is read; the old entry of \<open>F\<close> leaves the page table and the new
  one enters; \<open>F\<close> holds the page read, with pin count 1 and clean.  In a pool whose lists
  are in order the call returns.  It returns null exactly when the page is absent, the
  free list is empty and the replacer is empty.
\<close>

theorem FetchPage_spec:
  "(\<forall>F. page_table s pid = Some F \<longrightarrow>
      (\<exists>s'. FetchPage pid s = Inr (Some F, s') \<and>
         pages s' = (pages s)(F := (pages s F)\<lparr>pin_count := pin_count (pages s F) + 1\<rparr>) \<and>
         replacer s' = snd (LRUReplacer_Erase F (replacer s)) \<and>
         F \<notin> hashmap (replacer s') \<and>
         disk_manager s' = disk_manager s \<and>
         page_table s' = page_table s \<and> free_list s' = free_list s)) \<and>
   (page_table s pid = None \<longrightarrow>
      (\<forall>F s'. FetchPage pid s = Inr (Some F, s') \<longrightarrow>
         (if free_list s \<noteq> []
          then F = hd (free_list s) \<and> free_list s' = tl (free_list s) \<and>
               replacer s' = replacer s
          else free_list s' = [] \<and>
               LRUReplacer_Victim (replacer s) = (Some F, replacer s')) \<and>
         io_log (disk_manager s') =
           io_log (disk_manager s) @
           (if is_dirty (pages s F)
            then [WritePage (frame_page_id (pages s F)) (frame_data (pages s F))] else []) @
           [ReadPage pid] \<and>
         disk_image (disk_manager s') =
           (if is_dirty (pages s F)
            then (disk_image (disk_manager s))(frame_page_id (pages s F) := frame_data (pages s F))
            else disk_image (disk_manager s)) \<and>
         page_table s' = ((page_table s)(frame_page_id (pages s F) := None))(pid \<mapsto> F) \<and>
         pages s' = (pages s)(F := \<lparr>frame_page_id = pid, pin_count = 1, is_dirty = False,
                                  frame_data = disk_image (disk_manager s') pid\<rparr>)) \<and>
      (lists_ok s \<longrightarrow> (\<exists>r. FetchPage pid s = Inr r))) \<and>
   ((\<exists>s'. FetchPage pid s = Inr (None, s')) \<longleftrightarrow>
      page_table s pid = None \<and> free_list s = [] \<and> LRUReplacer_Size (replacer s) = 0)"
proof -
  have hit: "\<exists>s'. FetchPage pid s = Inr (Some F, s') \<and>
         pages s' = (pages s)(F := (pages s F)\<lparr>pin_count := pin_count (pages s F) + 1\<rparr>) \<and>
         replacer s' = snd (LRUReplacer_Erase F (replacer s)) \<and>
         F \<notin> hashmap (replacer s') \<and>
         disk_manager s' = disk_manager s \<and>
         page_table s' = page_table s \<and> free_list s' = free_list s"
    if "page_table s pid = Some F" for F
    using that by (simp add: FetchPage_def Let_def LRUReplacer_Erase_def)
  have miss: "(if free_list s \<noteq> []
          then F = hd (free_list s) \<and> free_list s' = tl (free_list s) \<and>
               replacer s' = replacer s
          else free_list s' = [] \<and>
               LRUReplacer_Victim (replacer s) = (Some F, replacer s')) \<and>
         io_log (disk_manager s') =
           io_log (disk_manager s) @
           (if is_dirty (pages s F)
            then [WritePage (frame_page_id (pages s F)) (frame_data (pages s F))] else []) @
           [ReadPage pid] \<and>
         disk_image (disk_manager s') =
           (if is_dirty (pages s F)
            then (disk_image (disk_manager s))(frame_page_id (pages s F) := frame_data (pages s F))
            else disk_image (disk_manager s)) \<and>
         page_table s' = ((page_table s)(frame_page_id (pages s F) := None))(pid \<mapsto> F) \<and>
         pages s' = (pages s)(F := \<lparr>frame_page_id = pid, pin_count = 1, is_dirty = False,
                                  frame_data = disk_image (disk_manager s') pid\<rparr>)"
    if miss: "page_table s pid = None" and f: "FetchPage pid s = Inr (Some F, s')" for F s'
  proof -
    from miss f obtain s1 where v: "GetVictimPage s = Inr (Some F, s1)"
      by (auto simp add: FetchPage_def Let_def split: sum.splits option.splits prod.splits)
    note g = GetVictimPage_Some [OF v]
    define dm1 where "dm1 = (if is_dirty (pages s1 F)
                then DiskManager_WritePage (frame_page_id (pages s1 F)) (frame_data (pages s1 F)) (disk_manager s1)
                else disk_manager s1)"
    from FetchPage_miss [OF miss v] f have s': "s' =
       s1\<lparr>pages := (pages s1)(F := (pages s1 F)\<lparr>frame_data := disk_image dm1 pid,
                   pin_count := 1, is_dirty := False, frame_page_id := pid\<rparr>),
          page_table := ((page_table s1)(frame_page_id (pages s1 F) := None))(pid \<mapsto> F),
          disk_manager := dm1\<lparr>io_log := io_log dm1 @ [ReadPage pid]\<rparr>\<rparr>"
      by (simp add: dm1_def)
    show ?thesis
      using g unfolding s' dm1_def
      by (cases "is_dirty (pages s F)"; cases "free_list s = []")
         (simp_all add: DiskManager_WritePage_def Page_update_all)
  qed
  have returns: "\<exists>r. FetchPage pid s = Inr r" if miss: "page_table s pid = None" and ok: "lists_ok s"
  proof -
    from GetVictimPage_returns [OF ok] obtain r where "GetVictimPage s = Inr r" ..
    with miss show ?thesis
      by (cases r; cases "fst r") (auto simp add: FetchPage_def Let_def split_def)
  qed
  have none: "(\<exists>s'. FetchPage pid s = Inr (None, s')) \<longleftrightarrow>
      page_table s pid = None \<and> free_list s = [] \<and> LRUReplacer_Size (replacer s) = 0"
  proof (cases "page_table s pid")
    case None
    have "(\<exists>s'. FetchPage pid s = Inr (None, s')) \<longleftrightarrow> (\<exists>s'. GetVictimPage s = Inr (None, s'))"
      using None
      by (auto simp add: FetchPage_def Let_def split_def split: sum.splits option.splits prod.splits)
    with None show ?thesis by (simp add: GetVictimPage_None)
  next
    case (Some F)
    then show ?thesis by (simp add: FetchPage_def Let_def)
  qed
  show ?thesis
    apply (rule conjI)
     apply (intro allI impI)
     apply (erule hit)
    apply (rule conjI)
     apply (rule impI)
     apply (rule conjI)
      apply (intro allI impI)
      apply (erule (1) miss)
     apply (rule impI)
     apply (erule (1) returns)
    apply (rule none)
    done
qed


lemma Inr_projr: "\<not> isl r \<Longrightarrow> fst (projr r) = a \<Longrightarrow> r = Inr (a, snd (projr r))"
  by (cases r) auto

text \<open>
  \<^verbatim>\<open>UnpinPage(page_id, d)\<close> of project2.  When the page is not in the page table the call
  returns false and changes nothing.  When it is in a frame with a positive pin count the
  call returns true, sets the dirty flag to its old value or \<open>d\<close>, takes one from the pin
  count, and inserts the frame into the replacer exactly when the count has reached zero.
\<close>

theorem UnpinPage_spec:
  "(page_table s pid = None \<longrightarrow> UnpinPage pid d s = Inr (False, s)) \<and>
   (\<forall>F. page_table s pid = Some F \<and> pin_count (pages s F) > 0 \<longrightarrow>
      (\<exists>s'. UnpinPage pid d s = Inr (True, s') \<and>
         pages s' = (pages s)(F := (pages s F)
                      \<lparr>is_dirty := is_dirty (pages s F) \<or> d,
                       pin_count := pin_count (pages s F) - 1\<rparr>) \<and>
         replacer s' = (if pin_count (pages s F) - 1 = 0
                        then LRUReplacer_Insert F (replacer s) else replacer s) \<and>
         page_table s' = page_table s \<and> free_list s' = free_list s \<and>
         disk_manager s' = disk_manager s))"
  by (simp add: UnpinPage_def Let_def)

text \<open>
  The theorem in a pool of one frame: page 1 is fetched into the free frame (a miss), fetched
  again (a hit), unpinned twice, once as dirty; fetching page 2 then evicts page 1, which is
  written back before page 2 is read; with the frame pinned, fetching page 3 returns null.
\<close>

theorem FetchPage_spec_witness:
  "(let s0 = BufferPoolManager_new 1 (empty_disk :: (nat, nat) DiskManager);
        s1 = snd (projr (FetchPage 1 s0));
        s2 = snd (projr (FetchPage 1 s1));
        s3 = snd (projr (UnpinPage 1 True s2));
        s4 = snd (projr (UnpinPage 1 False s3));
        s5 = snd (projr (FetchPage 2 s4))
    in page_table s0 1 = None \<and> lists_ok s0 \<and> FetchPage 1 s0 = Inr (Some 0, s1) \<and>
       io_log (disk_manager s1) = [ReadPage 1] \<and> free_list s1 = [] \<and>
       page_table s1 1 = Some 0 \<and> FetchPage 1 s1 = Inr (Some 0, s2) \<and>
       pin_count (pages s2 0) = 2 \<and> disk_manager s2 = disk_manager s1 \<and>
       page_table s4 2 = None \<and> lists_ok s4 \<and> free_list s4 = [] \<and>
       is_dirty (pages s4 0) \<and> FetchPage 2 s4 = Inr (Some 0, s5) \<and>
       io_log (disk_manager s5) = [ReadPage 1, WritePage 1 zero_page, ReadPage 2] \<and>
       page_table s5 1 = None \<and> page_table s5 2 = Some 0 \<and>
       pin_count (pages s5 0) = 1 \<and> \<not> is_dirty (pages s5 0) \<and>
       (\<exists>s'. FetchPage 3 s5 = Inr (None, s')))"
proof -
  define s0 where "s0 = BufferPoolManager_new 1 (empty_disk :: (nat, nat) DiskManager)"
  define s1 where "s1 = snd (projr (FetchPage 1 s0))"
  define s2 where "s2 = snd (projr (FetchPage 1 s1))"
  define s3 where "s3 = snd (projr (UnpinPage 1 True s2))"
  define s4 where "s4 = snd (projr (UnpinPage 1 False s3))"
  define s5 where "s5 = snd (projr (FetchPage 2 s4))"
  note defs = s0_def s1_def s2_def s3_def s4_def s5_def
  have a0: "page_table s0 1 = None" "lists_ok s0" "free_list s0 = [0]"
    "\<not> is_dirty (pages s0 0)"
    unfolding defs by code_simp+
  have d0: "io_log (disk_manager s0) = []" "disk_image (disk_manager s0) = (\<lambda>pid. zero_page)"
    by (simp_all add: s0_def BufferPoolManager_new_def empty_disk_def)
  have f1: "FetchPage 1 s0 = Inr (Some 0, s1)"
    unfolding s1_def by (rule Inr_projr; unfold defs; code_simp)
  from FetchPage_spec [of s0 1] a0 f1
  have m1: "io_log (disk_manager s1) = io_log (disk_manager s0) @ [] @ [ReadPage 1]"
    "disk_image (disk_manager s1) = disk_image (disk_manager s0)"
    "pages s1 = (pages s0)(0 := \<lparr>frame_page_id = 1, pin_count = 1, is_dirty = False,
                                  frame_data = disk_image (disk_manager s1) 1\<rparr>)"
    by auto
  have a1: "page_table s1 1 = Some 0" "free_list s1 = []"
    unfolding defs by code_simp+
  from FetchPage_spec [of s1 1] a1 obtain sa where
    h: "FetchPage 1 s1 = Inr (Some 0, sa)" "disk_manager sa = disk_manager s1"
       "pages sa = (pages s1)(0 := (pages s1 0)\<lparr>pin_count := pin_count (pages s1 0) + 1\<rparr>)"
    by blast
  then have s2: "sa = s2" by (simp add: s2_def)
  have p2: "pin_count (pages s2 0) = 2"
    unfolding defs by code_simp
  have dm4: "io_log (disk_manager s4) = [ReadPage 1]"
    and fd4: "frame_data (pages s4 0) = zero_page"
    by (simp_all add: defs BufferPoolManager_new_def empty_disk_def FetchPage_def
        GetVictimPage_def new_Page_def INVALID_PAGE_ID_def UnpinPage_def Let_def
        DiskManager_ReadPage_def LRUReplacer_new_def LRUReplacer_Erase_def)
  have a4: "page_table s4 2 = None" "lists_ok s4" "free_list s4 = []" "is_dirty (pages s4 0)"
    "frame_page_id (pages s4 0) = 1" "page_table s4 1 = Some 0"
    unfolding defs by code_simp+
  have f5: "FetchPage 2 s4 = Inr (Some 0, s5)"
    unfolding s5_def by (rule Inr_projr; unfold defs; code_simp)
  have a5: "page_table s5 3 = None" "free_list s5 = []" "LRUReplacer_Size (replacer s5) = 0"
    unfolding defs by code_simp+
  from FetchPage_spec [of s4 2] a4(1) f5
  have m: "io_log (disk_manager s5) = io_log (disk_manager s4) @
           (if is_dirty (pages s4 0)
            then [WritePage (frame_page_id (pages s4 0)) (frame_data (pages s4 0))] else []) @
           [ReadPage 2]"
       "page_table s5 = ((page_table s4)(frame_page_id (pages s4 0) := None))(2 \<mapsto> 0)"
       "pages s5 = (pages s4)(0 := \<lparr>frame_page_id = 2, pin_count = 1, is_dirty = False,
                                  frame_data = disk_image (disk_manager s5) 2\<rparr>)"
    by blast+
  from FetchPage_spec [of s5 3] a5 have n: "\<exists>s'. FetchPage 3 s5 = Inr (None, s')"
    by blast
  show ?thesis
    unfolding Let_def defs [symmetric]
    using a0 d0 f1 m1 a1 h s2 p2 a4 f5 m n dm4 fd4 by simp
qed

text \<open>The theorem on a page pinned twice: an absent page, then two calls on the page.\<close>

theorem UnpinPage_spec_witness:
  "(let s0 = BufferPoolManager_new 1 (empty_disk :: (nat, nat) DiskManager);
        s1 = snd (projr (FetchPage 1 s0));
        s2 = snd (projr (FetchPage 1 s1));
        s3 = snd (projr (UnpinPage 1 True s2));
        s4 = snd (projr (UnpinPage 1 False s3))
    in page_table s2 7 = None \<and> UnpinPage 7 True s2 = Inr (False, s2) \<and>
       page_table s2 1 = Some 0 \<and> pin_count (pages s2 0) = 2 \<and>
       UnpinPage 1 True s2 = Inr (True, s3) \<and>
       is_dirty (pages s3 0) \<and> pin_count (pages s3 0) = 1 \<and> replacer s3 = replacer s2 \<and>
       UnpinPage 1 False s3 = Inr (True, s4) \<and>
       is_dirty (pages s4 0) \<and> pin_count (pages s4 0) = 0 \<and>
       replacer s4 = LRUReplacer_Insert 0 (replacer s3) \<and> chain (replacer s4) = [0])"
proof -
  define s0 where "s0 = BufferPoolManager_new 1 (empty_disk :: (nat, nat) DiskManager)"
  define s1 where "s1 = snd (projr (FetchPage 1 s0))"
  define s2 where "s2 = snd (projr (FetchPage 1 s1))"
  define s3 where "s3 = snd (projr (UnpinPage 1 True s2))"
  define s4 where "s4 = snd (projr (UnpinPage 1 False s3))"
  note defs = s0_def s1_def s2_def s3_def s4_def
  have a2: "page_table s2 7 = None" "page_table s2 1 = Some 0" "pin_count (pages s2 0) = 2"
    "\<not> is_dirty (pages s2 0)"
    unfolding defs by code_simp+
  from UnpinPage_spec [of s2 7 True] a2 have u7: "UnpinPage 7 True s2 = Inr (False, s2)"
    by simp
  from UnpinPage_spec [of s2 1 True] a2 obtain s' where
    h3: "UnpinPage 1 True s2 = Inr (True, s')"
        "pages s' = (pages s2)(0 := (pages s2 0)\<lparr>is_dirty := is_dirty (pages s2 0) \<or> True,
                       pin_count := pin_count (pages s2 0) - 1\<rparr>)"
        "replacer s' = (if pin_count (pages s2 0) - 1 = 0
                        then LRUReplacer_Insert 0 (replacer s2) else replacer s2)"
        "page_table s' = page_table s2"
    by force
  then have e3: "s' = s3" by (simp add: s3_def)
  have a3: "page_table s3 1 = Some 0" "pin_count (pages s3 0) = 1" "is_dirty (pages s3 0)"
    using h3 a2 unfolding e3 by simp_all
  from UnpinPage_spec [of s3 1 False] a3 obtain s'' where
    h4: "UnpinPage 1 False s3 = Inr (True, s'')"
        "pages s'' = (pages s3)(0 := (pages s3 0)\<lparr>is_dirty := is_dirty (pages s3 0) \<or> False,
                       pin_count := pin_count (pages s3 0) - 1\<rparr>)"
        "replacer s'' = (if pin_count (pages s3 0) - 1 = 0
                        then LRUReplacer_Insert 0 (replacer s3) else replacer s3)"
    by force
  then have e4: "s'' = s4" by (simp add: s4_def)
  have c4: "chain (replacer s4) = [0]"
    unfolding defs by code_simp
  show ?thesis
    unfolding Let_def defs [symmetric]
    using a2 u7 h3 a3 h4 c4 unfolding e3 e4 by simp
qed

text \<open>
  Claim C3 on \<^verbatim>\<open>UnpinPage\<close> of project1.  Page 1 is pinned twice and unpinned once as dirty.
  The second call, \<^verbatim>\<open>UnpinPage(1, false)\<close>, returns true and leaves the frame clean: the
  flag is not the disjunction of its old value and the argument, as it is after the same
  call of project2.
\<close>

theorem UnpinPage_project1_loses_dirty:
  "(let s0 = BufferPoolManager_new 1 (empty_disk :: (nat, nat) DiskManager);
        s1 = snd (projr (FetchPage 1 s0));
        s2 = snd (projr (FetchPage 1 s1));
        s3 = snd (UnpinPage_project1 1 True s2)
    in page_table s3 1 = Some 0 \<and> pin_count (pages s3 0) = 1 \<and> is_dirty (pages s3 0) \<and>
       fst (UnpinPage_project1 1 False s3) = True \<and>
       \<not> is_dirty (pages (snd (UnpinPage_project1 1 False s3)) 0) \<and>
       is_dirty (pages (snd (projr (UnpinPage 1 False s3))) 0))"
  by code_simp

text \<open>
  Claim C10.  \<^verbatim>\<open>DeletePage(page_id)\<close> on a page that is not in the page table returns true
  and calls \<^verbatim>\<open>DeallocatePage(page_id)\<close>, with the frames, the page table, the free list and
  the replacer as they were.  Whenever it returns true it has called
  \<^verbatim>\<open>DeallocatePage(page_id)\<close>.  It returns false exactly when the page is in a frame whose
  pin count is positive, and then nothing has changed: the disk manager was not called.
\<close>

theorem DeletePage_spec:
  "(page_table s pid = None \<longrightarrow>
      DeletePage pid s =
        (True, s\<lparr>disk_manager := DiskManager_DeallocatePage pid (disk_manager s)\<rparr>) \<and>
      pages (snd (DeletePage pid s)) = pages s \<and>
      page_table (snd (DeletePage pid s)) = page_table s \<and>
      free_list (snd (DeletePage pid s)) = free_list s \<and>
      replacer (snd (DeletePage pid s)) = replacer s) \<and>
   (fst (DeletePage pid s) \<longrightarrow>
      io_log (disk_manager (snd (DeletePage pid s))) =
        io_log (disk_manager s) @ [DeallocatePage pid]) \<and>
   (\<not> fst (DeletePage pid s) \<longleftrightarrow>
      (\<exists>F. page_table s pid = Some F \<and> pin_count (pages s F) > 0)) \<and>
   (\<not> fst (DeletePage pid s) \<longrightarrow> snd (DeletePage pid s) = s)"
  by (cases "page_table s pid")
     (simp_all add: DeletePage_def Let_def DiskManager_DeallocatePage_def)

text \<open>The theorem with page 1 pinned in the only frame: deleting page 7, then page 1.\<close>

theorem DeletePage_spec_witness:
  "(let s0 = BufferPoolManager_new 1 (empty_disk :: (nat, nat) DiskManager);
        s1 = snd (projr (FetchPage 1 s0))
    in page_table s1 7 = None \<and> fst (DeletePage 7 s1) \<and>
       io_log (disk_manager (snd (DeletePage 7 s1))) = [ReadPage 1, DeallocatePage 7] \<and>
       pages (snd (DeletePage 7 s1)) = pages s1 \<and>
       page_table s1 1 = Some 0 \<and> pin_count (pages s1 0) = 1 \<and>
       \<not> fst (DeletePage 1 s1) \<and> snd (DeletePage 1 s1) = s1)"
proof -
  define s0 where "s0 = BufferPoolManager_new 1 (empty_disk :: (nat, nat) DiskManager)"
  define s1 where "s1 = snd (projr (FetchPage 1 s0))"
  note defs = s0_def s1_def
  have a: "page_table s1 7 = None" "page_table s1 1 = Some 0" "pin_count (pages s1 0) = 1"
    unfolding defs by code_simp+
  have l: "io_log (disk_manager s1) = [ReadPage 1]"
    by (simp add: defs BufferPoolManager_new_def empty_disk_def FetchPage_def
        GetVictimPage_def new_Page_def INVALID_PAGE_ID_def Let_def DiskManager_ReadPage_def)
  have t7: "fst (DeletePage 7 s1)"
    using DeletePage_spec [of s1 7] a by simp
  have n1: "\<not> fst (DeletePage 1 s1)"
    using DeletePage_spec [of s1 1] a by simp
  show ?thesis
    unfolding Let_def defs [symmetric]
    using DeletePage_spec [of s1 7] DeletePage_spec [of s1 1] a l t7 n1
    by (simp add: DiskManager_DeallocatePage_def)
qed

section \<open>Properties of the extendible hash table\<close>

lemma and_one_nat_simps:
  "(0::nat) AND 1 = 0" "(1::nat) AND 1 = 1" "(2::nat) AND 1 = 0" "Suc 0 AND Suc 0 = Suc 0"
  "0 AND Suc 0 = 0" "2 AND Suc 0 = 0"
  by (simp_all add: and_nat_def)

text \<open>
  Claim C8, as the code has it.  In a table of bucket size 2 under the identity hash, the
  keys 0, 1 and 2 are inserted in this order, with any values.  Each call returns (the
  third after one split); afterwards the global depth is 1, there are 2 buckets, both of
  local depth 1, and \<^verbatim>\<open>Find\<close> returns the value inserted for each of the three keys.
\<close>

theorem ExtendibleHash_split_scenario:
  "\<exists>t1 t2 t3.
     ExtendibleHash_Insert (Suc n0) (\<lambda>x. x) 0 v0 (ExtendibleHash_new 2) = Inr t1 \<and>
     ExtendibleHash_Insert (Suc n1) (\<lambda>x. x) 1 v1 t1 = Inr t2 \<and>
     ExtendibleHash_Insert (Suc (Suc n2)) (\<lambda>x. x) 2 v2 t2 = Inr t3 \<and>
     GetGlobalDepth t3 = 1 \<and> GetNumBuckets t3 = 2 \<and>
     GetLocalDepth t3 0 = 1 \<and> GetLocalDepth t3 1 = 1 \<and>
     ExtendibleHash_Find (\<lambda>x. x) t3 0 = Some v0 \<and>
     ExtendibleHash_Find (\<lambda>x. x) t3 1 = Some v1 \<and>
     ExtendibleHash_Find (\<lambda>x. x) t3 2 = Some v2"
  by (simp add: ExtendibleHash_Insert_def ExtendibleHash_new_def getIdx_def Let_def
      GetGlobalDepth_def GetNumBuckets_def GetLocalDepth_def ExtendibleHash_Find_def
      and_one_nat_simps)

text \<open>
  Claim C8 as stated fails: after the three calls the global depth is not 2 and the number
  of buckets is neither 3 nor 4.
\<close>

theorem ExtendibleHash_split_scenario_counterexample:
  "(let r1 = ExtendibleHash_Insert 5 (\<lambda>x. x) (0::nat) (10::nat) (ExtendibleHash_new 2);
        r2 = ExtendibleHash_Insert 5 (\<lambda>x. x) 1 11 (projr r1);
        r3 = ExtendibleHash_Insert 5 (\<lambda>x. x) 2 12 (projr r2)
    in \<not> isl r1 \<and> \<not> isl r2 \<and> \<not> isl r3 \<and>
       \<not> (GetGlobalDepth (projr r3) = 2 \<and>
            (GetNumBuckets (projr r3) = 3 \<or> GetNumBuckets (projr r3) = 4) \<and>
            ExtendibleHash_Find (\<lambda>x. x) (projr r3) 0 \<noteq> None \<and>
            ExtendibleHash_Find (\<lambda>x. x) (projr r3) 1 \<noteq> None \<and>
            ExtendibleHash_Find (\<lambda>x. x) (projr r3) 2 \<noteq> None))"
  by code_simp

section \<open>Properties of the B+Tree\<close>

lemma ebind_Inr [simp]: "ebind (Inr x) f = f x"
  by (simp add: ebind_def)

lemma ebind_Inl [simp]: "ebind (Inl e) f = Inl e"
  by (simp add: ebind_def)

lemma ebind_eq_Inr:
  "ebind m f = Inr y \<longleftrightarrow> (\<exists>x. m = Inr x \<and> f x = Inr y)"
  by (cases m) simp_all

lemma NewPage_exhausted:
  "free_list s = [] \<Longrightarrow> hashmap (replacer s) = {} \<Longrightarrow> NewPage s = Inr (None, s)"
  by (simp add: NewPage_def GetVictimPage_def LRUReplacer_Size_def)

text \<open>
  Claim C1 (insert/get round trip: after \<open>Insert(k, v)\<close> has returned true, \<open>GetValue(k)\<close>
  returns true with the value \<open>v\<close>) fails on an empty tree whose pool has no frame left:
  \<^verbatim>\<open>StartNewTree\<close> gets no page and returns false, \<^verbatim>\<open>Insert\<close> returns true all the same
  and leaves the tree empty, and \<^verbatim>\<open>GetValue\<close> of the key returns false.
\<close>

theorem Insert_true_on_exhausted_pool:
  assumes "IsEmpty t"
    and "free_list (buffer_pool_manager t) = []"
    and "hashmap (replacer (buffer_pool_manager t)) = {}"
  shows "Insert fuel key val transaction t = Inr (True, t, transaction) \<and>
         GetValue fuel key result transaction t = Inr (False, result, t, transaction)"
  using assms
  by (simp add: Insert_def StartNewTree_def NewPage_exhausted GetValue_def FindLeafPage_def)

text \<open>
  The theorem on the empty index over a pool of one frame, which the pinned header page
  occupies: inserting key 1 returns true, and key 1 is not found.
\<close>

theorem Insert_true_on_exhausted_pool_witness:
  "IsEmpty (example_tree 1 4 4) \<and>
   free_list (buffer_pool_manager (example_tree 1 4 4)) = [] \<and>
   hashmap (replacer (buffer_pool_manager (example_tree 1 4 4))) = {} \<and>
   Insert 10 1 10 (Some Transaction_new) (example_tree 1 4 4)
     = Inr (True, example_tree 1 4 4, Some Transaction_new) \<and>
   GetValue 10 1 [] (Some Transaction_new) (example_tree 1 4 4)
     = Inr (False, [], example_tree 1 4 4, Some Transaction_new)"
proof -
  have e: "IsEmpty (example_tree 1 4 4)"
    by (simp add: example_tree_def BPlusTree_new_def IsEmpty_def)
  have f: "free_list (buffer_pool_manager (example_tree 1 4 4)) = []"
    by code_simp
  have h: "hashmap (replacer (buffer_pool_manager (example_tree 1 4 4))) = {}"
    by code_simp
  from Insert_true_on_exhausted_pool [OF e f h, of 10 1 10 "Some Transaction_new" "[]"] e f h
  show ?thesis by simp
qed

end
